theory Spec2Isabelle
  imports Main
begin

section \<open>JavaScript strings\<close>

text \<open>
  A JavaScript string is a sequence of UTF-16 code units. The literals of
  \<^verbatim>\<open>static/main.js\<close> that are not ASCII (the Korean labels and messages) are
  written out as their code units; ASCII literals go through \<open>ascii\<close>.
\<close>

type_synonym jsstring = "nat list"

definition ascii :: "string \<Rightarrow> jsstring" where
  "ascii s = map of_char s"

text \<open>
  \<^verbatim>\<open>String.prototype.trim\<close> removes, at both ends, the code units of the
  ECMAScript productions WhiteSpace and LineTerminator.
\<close>

definition is_js_space :: "nat \<Rightarrow> bool" where
  "is_js_space c \<longleftrightarrow>
     c = 0x9 \<or> c = 0xA \<or> c = 0xB \<or> c = 0xC \<or> c = 0xD \<or> c = 0x20 \<or> c = 0xA0 \<or>
     c = 0x1680 \<or> (0x2000 \<le> c \<and> c \<le> 0x200A) \<or> c = 0x2028 \<or> c = 0x2029 \<or>
     c = 0x202F \<or> c = 0x205F \<or> c = 0x3000 \<or> c = 0xFEFF"

definition trim :: "jsstring \<Rightarrow> jsstring" where
  "trim s = rev (dropWhile is_js_space (rev (dropWhile is_js_space s)))"

text \<open>\<^verbatim>\<open>k.startsWith(p)\<close>.\<close>

definition startsWith :: "jsstring \<Rightarrow> jsstring \<Rightarrow> bool" where
  "startsWith k p \<longleftrightarrow> take (length p) k = p"

text \<open>
  The decimal rendering of a non-negative integer, as \<^verbatim>\<open>String(n)\<close> and the
  template literal \<^verbatim>\<open>`HTTP ${res.status}`\<close> produce it.
\<close>

fun dec :: "nat \<Rightarrow> jsstring" where
  "dec n = (if n < 10 then [48 + n] else dec (n div 10) @ [48 + n mod 10])"

declare dec.simps [simp del]

section \<open>Values returned by the store\<close>

text \<open>
  The JSON values that \<^verbatim>\<open>JSON.parse\<close> can return. An object is the list of
  its own properties in enumeration order, with distinct keys. Numbers are
  kept as integers, which is what identifiers, counts and status codes are.
\<close>

datatype jsval =
    JNull
  | JBool bool
  | JNum int
  | JStr jsstring
  | JArr "jsval list"
  | JObj "(jsstring \<times> jsval) list"

text \<open>JavaScript truthiness, as \<^verbatim>\<open>||\<close> and \<^verbatim>\<open>!\<close> test it.\<close>

fun truthy :: "jsval \<Rightarrow> bool" where
  "truthy JNull = False"
| "truthy (JBool b) = b"
| "truthy (JNum n) = (n \<noteq> 0)"
| "truthy (JStr s) = (s \<noteq> [])"
| "truthy (JArr _) = True"
| "truthy (JObj _) = True"

text \<open>
  Reading a named property that is neither \<^verbatim>\<open>length\<close> nor an index:
  only an object can have it; \<open>None\<close> is \<^verbatim>\<open>undefined\<close>. (Reading a property
  of \<^verbatim>\<open>null\<close> throws, which the callers model.)
\<close>

fun get_prop :: "jsval \<Rightarrow> jsstring \<Rightarrow> jsval option" where
  "get_prop (JObj kvs) k = map_of kvs k"
| "get_prop _ k = None"

text \<open>
  The rows and files of a snapshot, with the fields the client reads. A field
  the code guards against being absent (\<^verbatim>\<open>r.note ? ...\<close>,
  \<^verbatim>\<open>r.files || {}\<close>, \<^verbatim>\<open>files[k] || []\<close>) is an option. An identifier is the
  text it contributes to a template literal; \<open>created_at\<close> is the instant, in
  epoch milliseconds, that \<^verbatim>\<open>new Date(r.created_at)\<close> denotes.
\<close>

type_synonym ident = jsstring

record file_entry =
  file_id :: ident
  original_name :: jsstring

record row =
  row_id :: ident
  title :: jsstring
  row_note :: "jsstring option"
  category :: jsstring
  created_at :: int
  files :: "(jsstring \<times> file_entry list option) list option"

text \<open>
  The body of \<^verbatim>\<open>GET /api/rows\<close>: \<^verbatim>\<open>{ mode, rows }\<close> or
  \<^verbatim>\<open>{ mode, groups }\<close>. The client reads \<^verbatim>\<open>data.rows\<close> unguarded and
  \<^verbatim>\<open>data.groups || {}\<close>; \<open>groups\<close> is the object's property list in enumeration
  order.
\<close>

record snapshot =
  mode :: "jsstring option"
  rows :: "row list option"
  groups :: "(jsstring \<times> row list) list option"

text \<open>
  What \<^verbatim>\<open>JSON.parse\<close> yields for a response body: a snapshot object, kept
  typed, or any other JSON value.
\<close>

datatype data = Snapshot snapshot | Value jsval

section \<open>The request wrapper\<close>

text \<open>
  The five requests the client issues; each constructor stands for the
  \<^verbatim>\<open>(url, opts)\<close> pair passed to \<^verbatim>\<open>api\<close>:
  \<^item> \<open>GET_rows m\<close>: \<^verbatim>\<open>`/api/rows?group=${encodeURIComponent(m)}`\<close>, no options;
  \<^item> \<open>POST_rows t c n\<close>: \<^verbatim>\<open>"/api/rows"\<close>, method POST, JSON body \<^verbatim>\<open>{ title, category, note }\<close>;
  \<^item> \<open>DELETE_row i\<close>: \<^verbatim>\<open>`/api/rows/${i}`\<close>, method DELETE;
  \<^item> \<open>POST_upload i k f\<close>: \<^verbatim>\<open>"/api/upload"\<close>, method POST, form data \<^verbatim>\<open>row_id, kind, file\<close>;
  \<^item> \<open>DELETE_file i\<close>: \<^verbatim>\<open>`/api/files/${i}`\<close>, method DELETE.
\<close>

type_synonym jsfile = "jsstring \<times> nat list"

datatype request =
    GET_rows jsstring
  | POST_rows jsstring jsstring jsstring
  | DELETE_row ident
  | POST_upload ident jsstring jsfile
  | DELETE_file ident

text \<open>
  What the awaited \<^verbatim>\<open>fetch\<close> and \<^verbatim>\<open>res.text()\<close> deliver: a rejection
  (transport failure), or a response with its status, its body text and the
  result of \<^verbatim>\<open>JSON.parse\<close> on that text (\<open>None\<close> when it throws).
\<close>

record http_response =
  status :: nat
  body_text :: jsstring
  parsed :: "data option"

datatype reply = Rejected | Response http_response

text \<open>\<^verbatim>\<open>res.ok\<close>: the status is in the range 200 to 299.\<close>

definition ok :: "http_response \<Rightarrow> bool" where
  "ok res \<longleftrightarrow> 200 \<le> status res \<and> status res \<le> 299"

text \<open>
  The message of \<^verbatim>\<open>new Error(v)\<close> is \<^verbatim>\<open>String(v)\<close>: the string itself,
  or the coercion of another value, which is kept unevaluated.
\<close>

datatype message = Msg jsstring | Coerced jsval

datatype error = Error message | FetchFailed | TypeError

fun to_message :: "jsval \<Rightarrow> message" where
  "to_message (JStr s) = Msg s"
| "to_message v = Coerced v"

text \<open>\<^verbatim>\<open>data?.error\<close>; a snapshot object has no such property.\<close>

fun error_field :: "data \<Rightarrow> jsval option" where
  "error_field (Value v) = get_prop v (ascii ''error'')"
| "error_field (Snapshot s) = None"

text \<open>
  \<^verbatim>\<open>api(url, opts)\<close> from the point where the awaited response arrives (the
  caller's segment records the request as sent):
  \<^verbatim>\<open>
  try { data = JSON.parse(txt); } catch { data = txt; }
  if (!res.ok) throw new Error(data?.error || `HTTP ${res.status}`);
  return data;
  \<close>
\<close>

definition api :: "reply \<Rightarrow> error + data" where
  "api rp =
     (case rp of
        Rejected \<Rightarrow> Inl FetchFailed
      | Response res \<Rightarrow>
          let txt = body_text res;
              data = (case parsed res of Some d \<Rightarrow> d | None \<Rightarrow> Value (JStr txt))
          in if \<not> ok res
             then Inl (Error
                    (case error_field data of
                       Some v \<Rightarrow> if truthy v then to_message v
                                 else Msg (ascii ''HTTP '' @ dec (status res))
                     | None \<Rightarrow> Msg (ascii ''HTTP '' @ dec (status res))))
             else Inr data)"

section \<open>The document\<close>

text \<open>
  The handlers the client attaches to elements, named by what their closure
  does: open the file picker of an upload control, upload to a row and kind,
  delete a file, delete a row.
\<close>

datatype handler =
    OpenPicker
  | UploadChange ident jsstring
  | DeleteFileClick ident
  | DeleteRowClick ident

text \<open>
  An attribute value passed to \<^verbatim>\<open>el\<close> is a string or a function. An
  element keeps its tag, \<^verbatim>\<open>className\<close>, attributes, listeners and children;
  the text of a date cell is \<^verbatim>\<open>dt.toLocaleString()\<close>, which depends on the
  browser's locale and is kept as the instant.
\<close>

datatype attr_value = S jsstring | F handler

datatype node =
    Text jsstring
  | DateText int
  | Elem (tag: jsstring) (className: "attr_value option")
      (attributes: "(jsstring \<times> attr_value) list")
      (listeners: "(jsstring \<times> attr_value) list") (children: "node list")

datatype child = CNull | CStr jsstring | CDate int | CNode node

text \<open>
  \<^verbatim>\<open>
  Object.entries(attrs).forEach(([k,v]) => {
    if (k === "class") n.className = v;
    else if (k.startsWith("on")) n.addEventListener(k.slice(2), v);
    else n.setAttribute(k, v);
  });
  \<close>
\<close>

fun set_attr :: "node \<Rightarrow> jsstring \<times> attr_value \<Rightarrow> node" where
  "set_attr (Elem t c as ls ch) (k, v) =
     (if k = ascii ''class'' then Elem t (Some v) as ls ch
      else if startsWith k (ascii ''on'') then Elem t c as (ls @ [(drop 2 k, v)]) ch
      else Elem t c (as @ [(k, v)]) ls ch)"
| "set_attr n kv = n"

text \<open>\<^verbatim>\<open>n.appendChild(c)\<close> on an element.\<close>

fun appendChild :: "node \<Rightarrow> node \<Rightarrow> node" where
  "appendChild (Elem t c as ls ch) x = Elem t c as ls (ch @ [x])"
| "appendChild n x = n"

text \<open>
  \<^verbatim>\<open>
  children.flat().forEach(c => {
    if (c === null || c === undefined) return;
    n.appendChild(typeof c === "string" ? document.createTextNode(c) : c);
  });
  \<close>
  No call passes an array as a child, so \<^verbatim>\<open>flat()\<close> leaves every argument
  list as it is.
\<close>

fun add_child :: "node \<Rightarrow> child \<Rightarrow> node" where
  "add_child n CNull = n"
| "add_child n (CStr s) = appendChild n (Text s)"
| "add_child n (CDate t) = appendChild n (DateText t)"
| "add_child n (CNode x) = appendChild n x"

definition el :: "jsstring \<Rightarrow> (jsstring \<times> attr_value) list \<Rightarrow> child list \<Rightarrow> node" where
  "el t attrs cs = foldl add_child (foldl set_attr (Elem t None [] [] []) attrs) cs"

text \<open>\<^verbatim>\<open>n.addEventListener(ev, h)\<close> on an element.\<close>

fun addEventListener :: "node \<Rightarrow> jsstring \<Rightarrow> handler \<Rightarrow> node" where
  "addEventListener (Elem t c as ls ch) ev h = Elem t c as (ls @ [(ev, F h)]) ch"
| "addEventListener n ev h = n"

subsection \<open>Literals\<close>

text \<open>
  The Korean literals of the source, as UTF-16 code units: the four kind
  labels, the header cells, the button labels, the prompts and the messages.
\<close>

definition label_invoice :: jsstring where
  "label_invoice = [0xC778, 0xBCF4, 0xC774, 0xC2A4]"

definition label_work :: jsstring where
  "label_work = [0xC791, 0xC5C5, 0xD655, 0xC778, 0xC11C]"

definition label_inspect :: jsstring where
  "label_inspect = [0xAC80, 0xC218, 0xC11C]"

definition label_other :: jsstring where
  "label_other = [0xAE30, 0xD0C0, 32, 0xC11C, 0xB958]"

definition head_created :: jsstring where
  "head_created = [0xC0DD, 0xC131, 0xC77C]"

definition head_title_note :: jsstring where
  "head_title_note = [0xC81C, 0xBAA9, 32, 47, 32, 0xBE44, 0xACE0]"

definition head_category :: jsstring where
  "head_category = [0xC885, 0xB958]"

definition head_manage :: jsstring where
  "head_manage = [0xAD00, 0xB9AC]"

definition text_upload :: jsstring where
  "text_upload = [0xC5C5, 0xB85C, 0xB4DC]"

definition text_uploading :: jsstring where
  "text_uploading = [0xC5C5, 0xB85C, 0xB4DC, 0xC911, 0x2026]"

definition text_delete :: jsstring where
  "text_delete = [0xC0AD, 0xC81C]"

definition text_delete_row :: jsstring where
  "text_delete_row = [0xD589, 32, 0xC0AD, 0xC81C]"

definition text_no_data :: jsstring where
  "text_no_data = [0xB370, 0xC774, 0xD130, 0xAC00, 32, 0xC5C6, 0xC2B5, 0xB2C8, 0xB2E4, 46]"

definition text_title_required :: jsstring where
  "text_title_required =
     [0xC81C, 0xBAA9, 40, 0xD544, 0xC218, 41, 0xC744, 32, 0xC785, 0xB825, 0xD574, 0xC8FC,
      0xC138, 0xC694, 46]"

definition text_confirm_row :: jsstring where
  "text_confirm_row =
     [0xC774, 32, 0xD589, 0xC744, 32, 0xC0AD, 0xC81C, 0xD560, 0xAE4C, 0xC694, 63, 32, 40,
      0xCCA8, 0xBD80, 0xB3C4, 32, 0xD568, 0xAED8, 32, 0xC0AD, 0xC81C, 0xB428, 41]"

definition text_confirm_file :: jsstring where
  "text_confirm_file =
     [0xC774, 32, 0xD30C, 0xC77C, 0xC744, 32, 0xC0AD, 0xC81C, 0xD560, 0xAE4C, 0xC694, 63]"

definition folder_prefix :: jsstring where
  "folder_prefix = [0xD83D, 0xDCC1, 32]"

subsection \<open>The kind registry\<close>

definition attachKinds :: "(jsstring \<times> jsstring) list" where
  "attachKinds =
     [(ascii ''invoice'', label_invoice), (ascii ''work'', label_work),
      (ascii ''inspect'', label_inspect), (ascii ''other'', label_other)]"

subsection \<open>Counting\<close>

text \<open>
  \<^verbatim>\<open>
  let cnt = 0;
  for (const r of rows) {
    const files = r.files || {};
    for (const k of Object.keys(files)) cnt += (files[k] || []).length;
  }
  return cnt;
  \<close>
\<close>

definition bucket :: "(jsstring \<times> file_entry list option) list \<Rightarrow> jsstring \<Rightarrow> file_entry list" where
  "bucket fs k = (case map_of fs k of Some (Some l) \<Rightarrow> l | _ \<Rightarrow> [])"

definition files_or_empty :: "row \<Rightarrow> (jsstring \<times> file_entry list option) list" where
  "files_or_empty r = (case files r of Some fs \<Rightarrow> fs | None \<Rightarrow> [])"

definition countAllFiles :: "row list \<Rightarrow> nat" where
  "countAllFiles rs =
     foldl (\<lambda>cnt r. let fs = files_or_empty r
                     in foldl (\<lambda>cnt k. cnt + length (bucket fs k)) cnt (map fst fs))
       0 rs"

subsection \<open>Building the table\<close>

text \<open>
  The element tree that \<^verbatim>\<open>makeInstantUploadButton(rowId, kind)\<close> returns:
  a hidden file input and a button whose click opens the input's picker.
\<close>

definition makeInstantUploadButton :: "ident \<Rightarrow> jsstring \<Rightarrow> node" where
  "makeInstantUploadButton rowId kind =
     (let input = el (ascii ''input'')
                    [(ascii ''type'', S (ascii ''file'')),
                     (ascii ''style'', S (ascii ''display:none''))] [];
          btn = el (ascii ''button'') [(ascii ''class'', S (ascii ''btn-ghost mini''))]
                  [CStr text_upload];
          btn = addEventListener btn (ascii ''click'') OpenPicker;
          input = addEventListener input (ascii ''change'') (UploadChange rowId kind)
      in el (ascii ''div'') [(ascii ''class'', S (ascii ''uploader''))] [CNode btn, CNode input])"

text \<open>
  One attached file: a download link and a delete button, in a
  \<^verbatim>\<open>fileRow\<close> division.
\<close>

definition fileRow :: "file_entry \<Rightarrow> node" where
  "fileRow f =
     (let link = el (ascii ''a'')
                   [(ascii ''class'', S (ascii ''fileLink'')),
                    (ascii ''href'', S (ascii ''/api/download/'' @ file_id f)),
                    (ascii ''target'', S (ascii ''_blank''))]
                   [CStr (original_name f)];
          del = el (ascii ''button'')
                  [(ascii ''class'', S (ascii ''btn-danger mini'')),
                   (ascii ''onclick'', F (DeleteFileClick (file_id f)))]
                  [CStr text_delete]
      in el (ascii ''div'') [(ascii ''class'', S (ascii ''fileRow''))] [CNode link, CNode del])"

text \<open>
  \<^verbatim>\<open>
  const list = (row.files && row.files[kind]) ? row.files[kind] : [];
  for (const f of list) { ...; wrap.appendChild(el("div", { class:"fileRow" }, link, del)); }
  \<close>
\<close>

definition renderFilesCell :: "row \<Rightarrow> jsstring \<Rightarrow> node" where
  "renderFilesCell r kind =
     (let wrap = el (ascii ''div'') [(ascii ''class'', S (ascii ''files''))] [];
          wrap = appendChild wrap (makeInstantUploadButton (row_id r) kind);
          list = (case files r of Some fs \<Rightarrow> bucket fs kind | None \<Rightarrow> [])
      in foldl (\<lambda>wrap f. appendChild wrap (fileRow f)) wrap list)"

definition th :: "jsstring \<Rightarrow> node" where
  "th s = el (ascii ''th'') [] [CStr s]"

definition td :: "node \<Rightarrow> node" where
  "td n = el (ascii ''td'') [] [CNode n]"

text \<open>The body of the loop of \<^verbatim>\<open>renderTable\<close>: the table row of one row.\<close>

definition renderRow :: "row \<Rightarrow> node" where
  "renderRow r =
     (let tr = el (ascii ''tr'') [] [];
          tr = appendChild tr
                 (td (el (ascii ''div'') [(ascii ''class'', S (ascii ''meta''))]
                        [CDate (created_at r)]));
          tr = appendChild tr
                 (el (ascii ''td'') []
                    [CNode (el (ascii ''div'') [] [CStr (title r)]),
                     CNode (case row_note r of
                              Some n \<Rightarrow>
                                if n \<noteq> []
                                then el (ascii ''div'') [(ascii ''class'', S (ascii ''meta''))] [CStr n]
                                else el (ascii ''div'') [(ascii ''class'', S (ascii ''meta''))]
                                       [CStr (ascii '' '')]
                            | None \<Rightarrow>
                                el (ascii ''div'') [(ascii ''class'', S (ascii ''meta''))]
                                  [CStr (ascii '' '')])]);
          tr = appendChild tr
                 (td (el (ascii ''span'') [(ascii ''class'', S (ascii ''badge''))]
                        [CStr (category r)]));
          tr = appendChild tr (td (renderFilesCell r (ascii ''invoice'')));
          tr = appendChild tr (td (renderFilesCell r (ascii ''work'')));
          tr = appendChild tr (td (renderFilesCell r (ascii ''inspect'')));
          tr = appendChild tr (td (renderFilesCell r (ascii ''other'')))
      in appendChild tr
           (td (el (ascii ''button'')
                  [(ascii ''class'', S (ascii ''btn-danger mini'')),
                   (ascii ''onclick'', F (DeleteRowClick (row_id r)))]
                  [CStr text_delete_row])))"

definition renderTable :: "row list \<Rightarrow> node" where
  "renderTable rs =
     (let table = el (ascii ''table'') [(ascii ''class'', S (ascii ''grid''))] [];
          thead = el (ascii ''thead'') [] [];
          trh = el (ascii ''tr'') [] [];
          trh = appendChild trh (th head_created);
          trh = appendChild trh (th head_title_note);
          trh = appendChild trh (th head_category);
          trh = appendChild trh (th label_invoice);
          trh = appendChild trh (th label_work);
          trh = appendChild trh (th label_inspect);
          trh = appendChild trh (th label_other);
          trh = appendChild trh (th head_manage);
          thead = appendChild thead trh;
          table = appendChild table thead;
          tbody = el (ascii ''tbody'') [] [];
          tbody = foldl (\<lambda>tbody r. appendChild tbody (renderRow r)) tbody rs
      in appendChild table tbody)"

section \<open>The page and its event log\<close>

text \<open>
  What the user is shown, in order: the argument of an \<^verbatim>\<open>alert\<close> (a literal,
  or the \<^verbatim>\<open>message\<close> of a caught error), a \<^verbatim>\<open>confirm\<close> prompt with the
  answer given, and each request handed to \<^verbatim>\<open>fetch\<close>.
\<close>

datatype notice = Literal jsstring | MessageOf error

datatype event = Alert notice | Confirm jsstring bool | Sent request

text \<open>
  The page: the values of the inputs \<^verbatim>\<open>#title\<close>, \<^verbatim>\<open>#category\<close>,
  \<^verbatim>\<open>#note\<close> and \<^verbatim>\<open>#groupMode\<close>, the children of \<^verbatim>\<open>#content\<close>, the text of
  \<^verbatim>\<open>#totalBadge .num\<close>, and the log of events so far.
\<close>

record state =
  title_input :: jsstring
  category_input :: jsstring
  note_input :: jsstring
  groupMode :: jsstring
  content :: "node list"
  badge :: jsstring
  log :: "event list"

definition alert :: "notice \<Rightarrow> state \<Rightarrow> state" where
  "alert m st = st\<lparr>log := log st @ [Alert m]\<rparr>"

definition confirm :: "jsstring \<Rightarrow> bool \<Rightarrow> state \<Rightarrow> state" where
  "confirm m answer st = st\<lparr>log := log st @ [Confirm m answer]\<rparr>"

definition fetch :: "request \<Rightarrow> state \<Rightarrow> state" where
  "fetch rq st = st\<lparr>log := log st @ [Sent rq]\<rparr>"

text \<open>\<^verbatim>\<open>badge.textContent = String(n)\<close>.\<close>

definition setTotalBadge :: "nat \<Rightarrow> state \<Rightarrow> state" where
  "setTotalBadge n st = st\<lparr>badge := dec n\<rparr>"

text \<open>\<^verbatim>\<open>content.appendChild(n)\<close>.\<close>

definition content_append :: "node \<Rightarrow> state \<Rightarrow> state" where
  "content_append n st = st\<lparr>content := content st @ [n]\<rparr>"

text \<open>
  An async function runs in segments, one per \<^verbatim>\<open>await\<close>. A segment ends
  with the function suspended on a request, or settled: returned or thrown,
  together with the request of a \<^verbatim>\<open>refresh()\<close> it started without awaiting.
  A thrown outcome of a handler that nothing catches is an unhandled promise
  rejection: it reaches the console, not the user. \<open>Unmodelled\<close> marks a
  response body that is an object carrying \<^verbatim>\<open>rows\<close> or \<^verbatim>\<open>groups\<close> and is
  not given as a snapshot.
\<close>

datatype outcome = Returned | Threw error | Unmodelled

datatype progress = Awaiting request | Settled outcome "request option"

section \<open>Refresh\<close>

text \<open>
  \<^verbatim>\<open>refresh\<close> up to its await: read the grouping mode, issue the request.
\<close>

definition refresh_start :: "state \<Rightarrow> state \<times> request" where
  "refresh_start st =
     (let mode = groupMode st; rq = GET_rows mode in (fetch rq st, rq))"

text \<open>
  One iteration of
  \<^verbatim>\<open>
  for (const k of keys) {
    content.appendChild(el("div", { class:"groupHead" }, `\<dots> ${k}`));
    content.appendChild(renderTable(groups[k]));
  }
  \<close>
  where \<^verbatim>\<open>k\<close> is a key of \<^verbatim>\<open>groups\<close>.
\<close>

definition render_group :: "(jsstring \<times> row list) list \<Rightarrow> state \<Rightarrow> jsstring \<Rightarrow> state" where
  "render_group gs st k =
     (let st = content_append
                 (el (ascii ''div'') [(ascii ''class'', S (ascii ''groupHead''))]
                    [CStr (folder_prefix @ k)]) st
      in case map_of gs k of
           Some rs \<Rightarrow> content_append (renderTable rs) st
         | None \<Rightarrow> st)"

text \<open>
  The branch of \<^verbatim>\<open>refresh\<close> for a value whose \<^verbatim>\<open>mode\<close> is not
  \<^verbatim>\<open>"time"\<close>, given \<^verbatim>\<open>groups = data.groups || {}\<close>.
\<close>

definition render_groups :: "(jsstring \<times> row list) list \<Rightarrow> state \<Rightarrow> state \<times> outcome" where
  "render_groups gs st =
     (let all = foldl (\<lambda>all arr. all @ arr) [] (map snd gs);
          st = setTotalBadge (countAllFiles all) st;
          keys = map fst gs
      in if length keys = 0
         then (content_append
                 (el (ascii ''div'') [(ascii ''class'', S (ascii ''meta''))] [CStr text_no_data]) st,
               Returned)
         else (foldl (render_group gs) st keys, Returned))"

text \<open>
  \<^verbatim>\<open>refresh\<close> after \<^verbatim>\<open>api\<close> has returned \<^verbatim>\<open>data\<close>: the content is
  emptied first, then rebuilt from \<^verbatim>\<open>data\<close>. Reading \<^verbatim>\<open>data.mode\<close> of
  \<^verbatim>\<open>null\<close> throws, and so does iterating \<^verbatim>\<open>data.rows\<close> when it is
  \<^verbatim>\<open>undefined\<close>.
\<close>

definition refresh_render :: "state \<Rightarrow> data \<Rightarrow> state \<times> outcome" where
  "refresh_render st data =
     (let st = st\<lparr>content := []\<rparr>
      in case data of
           Snapshot d \<Rightarrow>
             if mode d = Some (ascii ''time'')
             then (case rows d of
                     None \<Rightarrow> (st, Threw TypeError)
                   | Some rs \<Rightarrow>
                       (content_append (renderTable rs) (setTotalBadge (countAllFiles rs) st),
                        Returned))
             else render_groups (case groups d of Some gs \<Rightarrow> gs | None \<Rightarrow> []) st
         | Value v \<Rightarrow>
             if v = JNull then (st, Threw TypeError)
             else if get_prop v (ascii ''rows'') \<noteq> None \<or> get_prop v (ascii ''groups'') \<noteq> None
             then (st, Unmodelled)
             else if get_prop v (ascii ''mode'') = Some (JStr (ascii ''time''))
             then (st, Threw TypeError)
             else render_groups [] st)"

text \<open>\<^verbatim>\<open>refresh\<close> from the arrival of the response.\<close>

definition refresh_resume :: "state \<Rightarrow> reply \<Rightarrow> state \<times> outcome" where
  "refresh_resume st rp =
     (case api rp of
        Inl e \<Rightarrow> (st, Threw e)
      | Inr data \<Rightarrow> refresh_render st data)"

section \<open>Mutations\<close>

text \<open>
  \<^verbatim>\<open>createRow\<close> up to its await:
  \<^verbatim>\<open>
  const title = document.getElementById("title").value.trim();
  const category = document.getElementById("category").value.trim();
  const note = document.getElementById("note").value.trim();
  if (!title) { alert(...); return; }
  await api("/api/rows", { method: "POST", ..., body: JSON.stringify({ title, category, note }) });
  \<close>
\<close>

definition createRow_start :: "state \<Rightarrow> state \<times> progress" where
  "createRow_start st =
     (let title = trim (title_input st);
          category = trim (category_input st);
          note = trim (note_input st)
      in if title = [] then (alert (Literal text_title_required) st, Settled Returned None)
         else let rq = POST_rows title category note in (fetch rq st, Awaiting rq))"

text \<open>
  \<^verbatim>\<open>createRow\<close> from the arrival of the response: a throw of \<^verbatim>\<open>api\<close>
  leaves the function; otherwise
  \<^verbatim>\<open>
  document.getElementById("title").value = "";
  document.getElementById("note").value = "";
  refresh();
  \<close>
\<close>

definition createRow_resume :: "state \<Rightarrow> reply \<Rightarrow> state \<times> progress" where
  "createRow_resume st rp =
     (case api rp of
        Inl e \<Rightarrow> (st, Settled (Threw e) None)
      | Inr data \<Rightarrow>
          let st = st\<lparr>title_input := []\<rparr>;
              st = st\<lparr>note_input := []\<rparr>;
              (st, rq) = refresh_start st
          in (st, Settled Returned (Some rq)))"

text \<open>
  \<^verbatim>\<open>
  async function deleteRow(id) {
    if (!confirm(...)) return;
    await api(`/api/rows/${id}`, { method: "DELETE" });
    refresh();
  }
  \<close>
  It is called from \<^verbatim>\<open>onclick: () => deleteRow(r.id)\<close>, which drops the
  promise.
\<close>

definition deleteRow_start :: "ident \<Rightarrow> bool \<Rightarrow> state \<Rightarrow> state \<times> progress" where
  "deleteRow_start i answer st =
     (let st = confirm text_confirm_row answer st
      in if \<not> answer then (st, Settled Returned None)
         else let rq = DELETE_row i in (fetch rq st, Awaiting rq))"

definition deleteRow_resume :: "state \<Rightarrow> reply \<Rightarrow> state \<times> progress" where
  "deleteRow_resume st rp =
     (case api rp of
        Inl e \<Rightarrow> (st, Settled (Threw e) None)
      | Inr data \<Rightarrow> let (st, rq) = refresh_start st in (st, Settled Returned (Some rq)))"

text \<open>
  The click handler of a file's delete button:
  \<^verbatim>\<open>
  if (!confirm(...)) return;
  try {
    await api(`/api/files/${f.id}`, { method:"DELETE" });
    refresh();
  } catch (e) { alert(e.message); }
  \<close>
\<close>

definition deleteFile_start :: "ident \<Rightarrow> bool \<Rightarrow> state \<Rightarrow> state \<times> progress" where
  "deleteFile_start i answer st =
     (let st = confirm text_confirm_file answer st
      in if \<not> answer then (st, Settled Returned None)
         else let rq = DELETE_file i in (fetch rq st, Awaiting rq))"

definition deleteFile_resume :: "state \<Rightarrow> reply \<Rightarrow> state \<times> progress" where
  "deleteFile_resume st rp =
     (case api rp of
        Inl e \<Rightarrow> (alert (MessageOf e) st, Settled Returned None)
      | Inr data \<Rightarrow> let (st, rq) = refresh_start st in (st, Settled Returned (Some rq)))"

section \<open>The upload control\<close>

text \<open>
  The live properties of one upload control: \<^verbatim>\<open>btn.disabled\<close>,
  \<^verbatim>\<open>btn.textContent\<close> and the selection \<^verbatim>\<open>input.files\<close>.
\<close>

record control =
  btn_disabled :: bool
  btn_textContent :: jsstring
  input_files :: "jsfile list"

text \<open>
  The \<^verbatim>\<open>finally\<close> block:
  \<^verbatim>\<open>btn.disabled = false; btn.textContent = ...; input.value = "";\<close>
\<close>

definition upload_finally :: "control \<Rightarrow> control" where
  "upload_finally c =
     c\<lparr>btn_disabled := False, btn_textContent := text_upload, input_files := []\<rparr>"

text \<open>
  The \<^verbatim>\<open>change\<close> handler up to its first await:
  \<^verbatim>\<open>
  if (!input.files || input.files.length === 0) return;
  const file = input.files[0];
  ...
  btn.disabled = true;
  btn.textContent = ...;
  try { await api("/api/upload", { method:"POST", body: fd });
  \<close>
\<close>

definition upload_start ::
  "ident \<Rightarrow> jsstring \<Rightarrow> control \<times> state \<Rightarrow> (control \<times> state) \<times> progress" where
  "upload_start rowId kind cs =
     (case cs of (c, st) \<Rightarrow>
        (case input_files c of
           [] \<Rightarrow> ((c, st), Settled Returned None)
         | file # _ \<Rightarrow>
             let rq = POST_upload rowId kind file;
                 c = c\<lparr>btn_disabled := True\<rparr>;
                 c = c\<lparr>btn_textContent := text_uploading\<rparr>
             in ((c, fetch rq st), Awaiting rq)))"

text \<open>
  From the arrival of the upload's response: a throw of \<^verbatim>\<open>api\<close> goes to
  \<^verbatim>\<open>catch (e) { alert(e.message); }\<close> and \<^verbatim>\<open>finally\<close>; otherwise
  \<^verbatim>\<open>await refresh()\<close> suspends the handler again.
\<close>

definition upload_resume :: "control \<times> state \<Rightarrow> reply \<Rightarrow> (control \<times> state) \<times> progress" where
  "upload_resume cs rp =
     (case cs of (c, st) \<Rightarrow>
        (case api rp of
           Inl e \<Rightarrow> ((upload_finally c, alert (MessageOf e) st), Settled Returned None)
         | Inr data \<Rightarrow> let (st, rq) = refresh_start st in ((c, st), Awaiting rq)))"

text \<open>
  From the arrival of the refresh's response: a throw of \<^verbatim>\<open>refresh\<close> is
  caught and alerted; \<^verbatim>\<open>finally\<close> runs either way.
\<close>

definition upload_refreshed :: "control \<times> state \<Rightarrow> reply \<Rightarrow> (control \<times> state) \<times> progress" where
  "upload_refreshed cs rp =
     (case cs of (c, st) \<Rightarrow>
        (case refresh_resume st rp of
           (st, Threw e) \<Rightarrow> ((upload_finally c, alert (MessageOf e) st), Settled Returned None)
         | (st, out) \<Rightarrow> ((upload_finally c, st), Settled out None)))"

text \<open>
  The life of one upload control in the browser's event loop. The button's
  click handler is \<^verbatim>\<open>() => input.click()\<close>, which opens the (modal) file
  picker; a disabled button dispatches no click. Choosing in the picker sets
  \<^verbatim>\<open>input.files\<close> and fires \<^verbatim>\<open>change\<close>; cancelling closes it. The hidden
  input can be reached in no other way. \<open>uploading\<close> and \<open>refreshing\<close> count
  the invocations of the \<^verbatim>\<open>change\<close> handler that are suspended at its first
  and at its second await.
\<close>

record upload_sys =
  ctl :: control
  page :: state
  picker_open :: bool
  uploading :: nat
  refreshing :: nat

definition fresh_control :: control where
  "fresh_control = \<lparr>btn_disabled = False, btn_textContent = text_upload, input_files = []\<rparr>"

definition init_sys :: "state \<Rightarrow> upload_sys" where
  "init_sys st =
     \<lparr>ctl = fresh_control, page = st, picker_open = False, uploading = 0, refreshing = 0\<rparr>"

inductive step :: "ident \<Rightarrow> jsstring \<Rightarrow> upload_sys \<Rightarrow> upload_sys \<Rightarrow> bool"
  for rowId :: ident and kind :: jsstring where
  click:
    "\<not> btn_disabled (ctl s) \<Longrightarrow> step rowId kind s (s\<lparr>picker_open := True\<rparr>)"
| cancel:
    "picker_open s \<Longrightarrow> step rowId kind s (s\<lparr>picker_open := False\<rparr>)"
| choose:
    "picker_open s \<Longrightarrow>
     upload_start rowId kind ((ctl s)\<lparr>input_files := fs\<rparr>, page s) = ((c, st), p) \<Longrightarrow>
     step rowId kind s
       (s\<lparr>ctl := c, page := st, picker_open := False,
           uploading := (case p of Awaiting _ \<Rightarrow> Suc (uploading s) | Settled _ _ \<Rightarrow> uploading s)\<rparr>)"
| upload_reply:
    "0 < uploading s \<Longrightarrow>
     upload_resume (ctl s, page s) rp = ((c, st), p) \<Longrightarrow>
     step rowId kind s
       (s\<lparr>ctl := c, page := st, uploading := uploading s - 1,
           refreshing := (case p of Awaiting _ \<Rightarrow> Suc (refreshing s) | Settled _ _ \<Rightarrow> refreshing s)\<rparr>)"
| refresh_reply:
    "0 < refreshing s \<Longrightarrow>
     upload_refreshed (ctl s, page s) rp = ((c, st), p) \<Longrightarrow>
     step rowId kind s (s\<lparr>ctl := c, page := st, refreshing := refreshing s - 1\<rparr>)"

inductive reachable :: "ident \<Rightarrow> jsstring \<Rightarrow> upload_sys \<Rightarrow> bool"
  for rowId :: ident and kind :: jsstring where
  init: "reachable rowId kind (init_sys st)"
| after: "reachable rowId kind s \<Longrightarrow> step rowId kind s s' \<Longrightarrow> reachable rowId kind s'"

code_pred step .

code_pred reachable .

section \<open>Observations\<close>

text \<open>The requests issued so far and the alerts shown so far, oldest first.\<close>

fun sent_of :: "event \<Rightarrow> request list" where
  "sent_of (Sent rq) = [rq]"
| "sent_of e = []"

definition sent :: "state \<Rightarrow> request list" where
  "sent st = concat (map sent_of (log st))"

fun alert_of :: "event \<Rightarrow> notice list" where
  "alert_of (Alert m) = [m]"
| "alert_of e = []"

definition alerts :: "state \<Rightarrow> notice list" where
  "alerts st = concat (map alert_of (log st))"

text \<open>The number of elements of a class in a tree, and in the content.\<close>

fun count_class :: "jsstring \<Rightarrow> node \<Rightarrow> nat" where
  "count_class c (Elem t cn as ls ch) =
     (if cn = Some (S c) then 1 else 0) + sum_list (map (count_class c) ch)"
| "count_class c (Text s) = 0"
| "count_class c (DateText t) = 0"

definition rendered_files :: "state \<Rightarrow> nat" where
  "rendered_files st = sum_list (map (count_class (ascii ''fileRow'')) (content st))"

text \<open>The creation instants shown in a tree, in document order.\<close>

fun date_texts :: "node \<Rightarrow> int list" where
  "date_texts (Elem t cn as ls ch) = concat (map date_texts ch)"
| "date_texts (Text s) = []"
| "date_texts (DateText t) = [t]"

definition rendered_dates :: "state \<Rightarrow> int list" where
  "rendered_dates st = concat (map date_texts (content st))"

text \<open>The children of a node, and the rows of the body of a table.\<close>

fun kids :: "node \<Rightarrow> node list" where
  "kids (Elem t cn as ls ch) = ch"
| "kids n = []"

definition table_rows :: "node \<Rightarrow> node list" where
  "table_rows t = (case rev (kids t) of [] \<Rightarrow> [] | tbody # _ \<Rightarrow> kids tbody)"

text \<open>
  The keys a file map may have, and the shape of a stored row: its buckets
  are keyed by distinct kinds of the registry.
\<close>

definition registered :: "row \<Rightarrow> bool" where
  "registered r \<longleftrightarrow>
     distinct (map fst (files_or_empty r)) \<and>
     set (map fst (files_or_empty r)) \<subseteq> set (map fst attachKinds)"

text \<open>The rows a snapshot carries, whichever its mode.\<close>

definition snapshot_rows :: "snapshot \<Rightarrow> row list" where
  "snapshot_rows d =
     (if mode d = Some (ascii ''time'') then (case rows d of Some rs \<Rightarrow> rs | None \<Rightarrow> [])
      else concat (map snd (case groups d of Some gs \<Rightarrow> gs | None \<Rightarrow> [])))"

text \<open>
  A snapshot as the store sends it: rows in time mode, and groups under
  distinct categories otherwise, every row with registered kinds.
\<close>

definition well_formed :: "snapshot \<Rightarrow> bool" where
  "well_formed d \<longleftrightarrow>
     (if mode d = Some (ascii ''time'') then rows d \<noteq> None
      else distinct (map fst (case groups d of Some gs \<Rightarrow> gs | None \<Rightarrow> []))) \<and>
     list_all registered (snapshot_rows d)"

text \<open>
  The message that the interface contract words for a failed response: the
  \<^verbatim>\<open>error\<close> field when the body parses as \<^verbatim>\<open>{ error: string }\<close>, and
  \<^verbatim>\<open>"HTTP {status}"\<close> otherwise.
\<close>

definition contract_message :: "http_response \<Rightarrow> message" where
  "contract_message res =
     (case parsed res of
        Some (Value (JObj kvs)) \<Rightarrow>
          (case map_of kvs (ascii ''error'') of
             Some (JStr s) \<Rightarrow> Msg s
           | _ \<Rightarrow> Msg (ascii ''HTTP '' @ dec (status res)))
      | _ \<Rightarrow> Msg (ascii ''HTTP '' @ dec (status res)))"

text \<open>Non-increasing order of a list of instants: most recent first.\<close>

definition descending :: "int list \<Rightarrow> bool" where
  "descending ts \<longleftrightarrow> sorted (rev ts)"

text \<open>The four kinds whose cells \<^verbatim>\<open>renderTable\<close> builds for every row, in order.\<close>

definition kinds4 :: "jsstring list" where
  "kinds4 = [ascii ''invoice'', ascii ''work'', ascii ''inspect'', ascii ''other'']"

text \<open>
  The two nodes one group contributes to the content: its heading and its
  table.
\<close>

definition group_nodes :: "(jsstring \<times> row list) list \<Rightarrow> jsstring \<Rightarrow> node list" where
  "group_nodes gs k =
     Elem (ascii ''div'') (Some (S (ascii ''groupHead''))) [] [] [Text (folder_prefix @ k)] #
     (case map_of gs k of Some rs \<Rightarrow> [renderTable rs] | None \<Rightarrow> [])"

text \<open>
  The sum, over all rows and all kinds present, of the lengths of the
  per-kind buckets.
\<close>

definition bucket_total :: "row list \<Rightarrow> nat" where
  "bucket_total rs =
     sum_list
       (map (\<lambda>r. sum_list (map (\<lambda>kb. length (case snd kb of Some l \<Rightarrow> l | None \<Rightarrow> []))
                             (files_or_empty r))) rs)"

text \<open>The upload requests among the requests issued so far.\<close>

fun is_upload :: "request \<Rightarrow> bool" where
  "is_upload (POST_upload i k f) = True"
| "is_upload rq = False"

definition uploads :: "state \<Rightarrow> request list" where
  "uploads st = filter is_upload (sent st)"

text \<open>
  The number of invocations of a control's \<^verbatim>\<open>change\<close> handler that have
  issued their upload and not yet run their \<^verbatim>\<open>finally\<close> block.
\<close>

definition in_flight :: "upload_sys \<Rightarrow> nat" where
  "in_flight s = uploading s + refreshing s"

text \<open>
  While an invocation is in flight there is only one, the button is
  disabled with the busy label, and the picker is closed.
\<close>

definition busy_inv :: "upload_sys \<Rightarrow> bool" where
  "busy_inv s \<longleftrightarrow>
     in_flight s \<le> 1 \<and>
     (0 < in_flight s \<longrightarrow>
        btn_disabled (ctl s) \<and> btn_textContent (ctl s) = text_uploading \<and> \<not> picker_open s)"

section \<open>Sample inputs\<close>

text \<open>An empty page in time mode.\<close>

definition page0 :: state where
  "page0 =
     \<lparr>title_input = [], category_input = [], note_input = [], groupMode = ascii ''time'',
      content = [], badge = ascii ''0'', log = []\<rparr>"

text \<open>
  Three responses: status 400 with body \<^verbatim>\<open>{"error":""}\<close>, status 404 with
  body \<^verbatim>\<open>{"error":"not found"}\<close>, and status 200 with a body that is not
  JSON.
\<close>

definition reply_empty_error :: http_response where
  "reply_empty_error =
     \<lparr>status = 400,
      body_text = [123, 34, 101, 114, 114, 111, 114, 34, 58, 34, 34, 125],
      parsed = Some (Value (JObj [(ascii ''error'', JStr [])]))\<rparr>"

definition reply_not_found :: http_response where
  "reply_not_found =
     \<lparr>status = 404,
      body_text = [123, 34, 101, 114, 114, 111, 114, 34, 58, 34, 110, 111, 116, 32, 102,
                   111, 117, 110, 100, 34, 125],
      parsed = Some (Value (JObj [(ascii ''error'', JStr (ascii ''not found''))]))\<rparr>"

definition reply_html :: http_response where
  "reply_html =
     \<lparr>status = 200, body_text = ascii ''<html>Bad Gateway</html>'', parsed = None\<rparr>"

text \<open>
  Two pages with the form filled in: a title of an ideographic space and a
  space, and the title \<^verbatim>\<open>T\<close> with category \<^verbatim>\<open>C\<close> and note \<^verbatim>\<open>N\<close>. The
  response to the latter's creation: status 201 with body
  \<^verbatim>\<open>{"id":"7","title":"T","category":"C","note":"N"}\<close>.
\<close>

definition page_blank_title :: state where
  "page_blank_title =
     page0\<lparr>title_input := [0x3000, 32], category_input := ascii ''x'',
           note_input := ascii ''y''\<rparr>"

definition page_filled :: state where
  "page_filled =
     page0\<lparr>title_input := ascii ''T'', category_input := ascii ''C'',
           note_input := ascii ''N''\<rparr>"

definition created_row :: data where
  "created_row =
     Value (JObj [(ascii ''id'', JStr (ascii ''7'')), (ascii ''title'', JStr (ascii ''T'')),
                  (ascii ''category'', JStr (ascii ''C'')), (ascii ''note'', JStr (ascii ''N''))])"

definition reply_created :: http_response where
  "reply_created =
     \<lparr>status = 201,
      body_text = [123, 34, 105, 100, 34, 58, 34, 55, 34, 44, 34, 116, 105, 116, 108, 101,
                   34, 58, 34, 84, 34, 44, 34, 99, 97, 116, 101, 103, 111, 114, 121, 34, 58,
                   34, 67, 34, 44, 34, 110, 111, 116, 101, 34, 58, 34, 78, 34, 125],
      parsed = Some created_row\<rparr>"

text \<open>
  Two stored rows, the older with one invoice and the newer with one work
  confirmation and an empty bucket; a snapshot that lists them oldest first
  in time mode; a snapshot that groups them by category.
\<close>

definition row_old :: row where
  "row_old =
     \<lparr>row_id = ascii ''1'', title = ascii ''old'', row_note = None, category = ascii ''a'',
      created_at = 1000,
      files = Some [(ascii ''invoice'',
                     Some [\<lparr>file_id = ascii ''10'', original_name = ascii ''a.pdf''\<rparr>])]\<rparr>"

definition row_new :: row where
  "row_new =
     \<lparr>row_id = ascii ''2'', title = ascii ''new'', row_note = Some (ascii ''n''),
      category = ascii ''b'', created_at = 2000,
      files = Some [(ascii ''work'',
                     Some [\<lparr>file_id = ascii ''11'', original_name = ascii ''b.pdf''\<rparr>]),
                    (ascii ''other'', None)]\<rparr>"

definition snap_ascending :: snapshot where
  "snap_ascending =
     \<lparr>mode = Some (ascii ''time''), rows = Some [row_old, row_new], groups = None\<rparr>"

definition snap_grouped :: snapshot where
  "snap_grouped =
     \<lparr>mode = Some (ascii ''category''), rows = None,
      groups = Some [(ascii ''a'', [row_old]), (ascii ''b'', [row_new])]\<rparr>"

text \<open>
  A row whose only bucket is keyed \<^verbatim>\<open>misc\<close>, which is not a kind of the
  registry.
\<close>

definition row_misc :: row where
  "row_misc =
     \<lparr>row_id = ascii ''3'', title = ascii ''odd'', row_note = None, category = ascii ''a'',
      created_at = 3000,
      files = Some [(ascii ''misc'',
                     Some [\<lparr>file_id = ascii ''12'', original_name = ascii ''c.pdf''\<rparr>])]\<rparr>"

text \<open>
  A row without files and the response that carries it, with body
  \<^verbatim>\<open>{"mode":"time","rows":[{"id":"1","title":"old","category":"a","created_at":1000}]}\<close>.
\<close>

definition row_plain :: row where
  "row_plain =
     \<lparr>row_id = ascii ''1'', title = ascii ''old'', row_note = None, category = ascii ''a'',
      created_at = 1000, files = None\<rparr>"

definition reply_rows :: http_response where
  "reply_rows =
     \<lparr>status = 200,
      body_text = [123, 34, 109, 111, 100, 101, 34, 58, 34, 116, 105, 109, 101, 34, 44,
                   34, 114, 111, 119, 115, 34, 58, 91, 123, 34, 105, 100, 34, 58, 34, 49,
                   34, 44, 34, 116, 105, 116, 108, 101, 34, 58, 34, 111, 108, 100, 34, 44,
                   34, 99, 97, 116, 101, 103, 111, 114, 121, 34, 58, 34, 97, 34, 44, 34,
                   99, 114, 101, 97, 116, 101, 100, 95, 97, 116, 34, 58, 49, 48, 48, 48,
                   125, 93, 125],
      parsed = Some (Snapshot \<lparr>mode = Some (ascii ''time''), rows = Some [row_plain],
                               groups = None\<rparr>)\<rparr>"

text \<open>
  The control of row \<^verbatim>\<open>7\<close> and kind \<^verbatim>\<open>invoice\<close> after a click and the
  choice of a file \<^verbatim>\<open>a.pdf\<close>, on the empty page.
\<close>

definition sys_busy :: upload_sys where
  "sys_busy =
     \<lparr>ctl = \<lparr>btn_disabled = True, btn_textContent = text_uploading,
             input_files = [(ascii ''a.pdf'', [37, 80, 68, 70])]\<rparr>,
      page = fetch (POST_upload (ascii ''7'') (ascii ''invoice'')
                      (ascii ''a.pdf'', [37, 80, 68, 70])) page0,
      picker_open = False, uploading = 1, refreshing = 0\<rparr>"

section \<open>Properties of the request wrapper\<close>

text \<open>
  C10. For a response that arrived, \<^verbatim>\<open>api\<close> throws exactly when the status
  is not a success status. On a success status it returns the parsed body
  when the body is JSON and the raw text as the value otherwise; a body
  that does not parse never makes it throw.
\<close>

theorem api_throws_iff_not_ok:
  "((\<exists>e. api (Response res) = Inl e) \<longleftrightarrow> \<not> ok res) \<and>
   (ok res \<longrightarrow>
      api (Response res) =
        Inr (case parsed res of Some d \<Rightarrow> d | None \<Rightarrow> Value (JStr (body_text res))))"
  by (simp add: api_def Let_def)

theorem api_throws_iff_not_ok_witness:
  "ok reply_html \<and> parsed reply_html = None \<and>
   api (Response reply_html) = Inr (Value (JStr (ascii ''<html>Bad Gateway</html>'')))"
  using api_throws_iff_not_ok [of reply_html]
  by (simp add: reply_html_def ok_def)

text \<open>
  C9, as stated: the message of a failed response is the \<^verbatim>\<open>error\<close> field
  whenever the body has the shape \<^verbatim>\<open>{ error: string }\<close>. It fails for status
  400 with body \<^verbatim>\<open>{"error":""}\<close>: the field is the empty string, which
  \<^verbatim>\<open>||\<close> takes as false, so the message is \<^verbatim>\<open>"HTTP 400"\<close>.
\<close>

theorem api_empty_error_counterexample:
  "\<not> ok reply_empty_error \<and>
   api (Response reply_empty_error) = Inl (Error (Msg (ascii ''HTTP 400''))) \<and>
   contract_message reply_empty_error = Msg [] \<and>
   api (Response reply_empty_error) \<noteq> Inl (Error (contract_message reply_empty_error))"
  by (simp add: reply_empty_error_def ok_def api_def contract_message_def ascii_def dec.simps)

text \<open>
  C9, amended. For a response whose status is not a success status, the
  message is the \<^verbatim>\<open>error\<close> field of the parsed body when that field is a
  non-empty string. It is \<^verbatim>\<open>"HTTP {status}"\<close> when the body does not parse,
  when the parsed body has no \<^verbatim>\<open>error\<close> field (or is not an object), and when
  the field is falsy: the empty string, \<^verbatim>\<open>null\<close>, \<^verbatim>\<open>false\<close> or zero. A
  truthy field that is not a string is used after coercion to a string.
\<close>

theorem api_error_message:
  assumes "\<not> ok res"
  shows
    "(\<forall>kvs s. parsed res = Some (Value (JObj kvs)) \<and>
         map_of kvs (ascii ''error'') = Some (JStr s) \<and> s \<noteq> [] \<longrightarrow>
         api (Response res) = Inl (Error (Msg s))) \<and>
     (parsed res = None \<longrightarrow>
         api (Response res) = Inl (Error (Msg (ascii ''HTTP '' @ dec (status res))))) \<and>
     (\<forall>d. parsed res = Some d \<and> error_field d = None \<longrightarrow>
         api (Response res) = Inl (Error (Msg (ascii ''HTTP '' @ dec (status res))))) \<and>
     (\<forall>d v. parsed res = Some d \<and> error_field d = Some v \<and> \<not> truthy v \<longrightarrow>
         api (Response res) = Inl (Error (Msg (ascii ''HTTP '' @ dec (status res))))) \<and>
     (\<forall>d v. parsed res = Some d \<and> error_field d = Some v \<and> truthy v \<longrightarrow>
         api (Response res) = Inl (Error (to_message v)))"
  using assms by (auto simp: api_def Let_def)

theorem api_error_message_witness:
  "\<not> ok reply_not_found \<and>
   api (Response reply_not_found) = Inl (Error (Msg (ascii ''not found'')))"
proof -
  have nok: "\<not> ok reply_not_found"
    by (simp add: reply_not_found_def ok_def)
  have p: "parsed reply_not_found =
             Some (Value (JObj [(ascii ''error'', JStr (ascii ''not found''))]))"
    by (simp add: reply_not_found_def)
  have m: "map_of [(ascii ''error'', JStr (ascii ''not found''))] (ascii ''error'') =
             Some (JStr (ascii ''not found''))"
    by simp
  have ne: "ascii ''not found'' \<noteq> []"
    by (simp add: ascii_def)
  from api_error_message [OF nok] p m ne
  have "api (Response reply_not_found) = Inl (Error (Msg (ascii ''not found'')))"
    by blast
  with nok show ?thesis by simp
qed

section \<open>Properties of the mutations\<close>

lemma sent_fetch [simp]: "sent (fetch rq st) = sent st @ [rq]"
  by (simp add: sent_def fetch_def)

lemma sent_alert [simp]: "sent (alert m st) = sent st"
  by (simp add: sent_def alert_def)

lemma sent_confirm [simp]: "sent (confirm m a st) = sent st"
  by (simp add: sent_def confirm_def)

lemma sent_update [simp]:
  "sent (st\<lparr>title_input := a\<rparr>) = sent st"
  "sent (st\<lparr>note_input := b\<rparr>) = sent st"
  "sent (st\<lparr>content := c\<rparr>) = sent st"
  "sent (st\<lparr>badge := d\<rparr>) = sent st"
  by (simp_all add: sent_def)

lemma alerts_fetch [simp]: "alerts (fetch rq st) = alerts st"
  by (simp add: alerts_def fetch_def)

lemma alerts_alert [simp]: "alerts (alert m st) = alerts st @ [m]"
  by (simp add: alerts_def alert_def)

lemma alerts_confirm [simp]: "alerts (confirm m a st) = alerts st"
  by (simp add: alerts_def confirm_def)

text \<open>
  C4. When the title is empty after trimming, \<^verbatim>\<open>createRow\<close> shows the
  validation message and returns: it is settled without suspending on a
  request, and no request has been issued.
\<close>

theorem createRow_blank_title:
  assumes "trim (title_input st) = []"
  shows "createRow_start st = (alert (Literal text_title_required) st, Settled Returned None) \<and>
         sent (fst (createRow_start st)) = sent st \<and>
         alerts (fst (createRow_start st)) = alerts st @ [Literal text_title_required]"
  using assms by (simp add: createRow_start_def Let_def)

theorem createRow_blank_title_witness:
  "trim (title_input page_blank_title) = [] \<and>
   createRow_start page_blank_title =
     (alert (Literal text_title_required) page_blank_title, Settled Returned None) \<and>
   sent (fst (createRow_start page_blank_title)) = []"
proof -
  have t: "trim (title_input page_blank_title) = []"
    by (simp add: page_blank_title_def page0_def trim_def is_js_space_def)
  have s: "sent page_blank_title = []"
    by (simp add: page_blank_title_def page0_def sent_def)
  from createRow_blank_title [OF t] t s show ?thesis by simp
qed

text \<open>
  C5, as stated: after a successful \<^verbatim>\<open>createRow\<close> the title, category and
  note inputs are all cleared. It fails for title \<^verbatim>\<open>T\<close>, category \<^verbatim>\<open>C\<close>,
  note \<^verbatim>\<open>N\<close> and a 201 response: the category input still holds \<^verbatim>\<open>C\<close>.
\<close>

theorem createRow_category_counterexample:
  "snd (createRow_start page_filled) =
     Awaiting (POST_rows (ascii ''T'') (ascii ''C'') (ascii ''N'')) \<and>
   ok reply_created \<and>
   snd (createRow_resume (fst (createRow_start page_filled)) (Response reply_created)) =
     Settled Returned (Some (GET_rows (ascii ''time''))) \<and>
   category_input
     (fst (createRow_resume (fst (createRow_start page_filled)) (Response reply_created))) =
     ascii ''C'' \<and>
   category_input
     (fst (createRow_resume (fst (createRow_start page_filled)) (Response reply_created))) \<noteq> []"
  by (simp add: page_filled_def page0_def createRow_start_def createRow_resume_def Let_def
        trim_def is_js_space_def ascii_def reply_created_def ok_def api_def refresh_start_def
        fetch_def)

text \<open>
  C5, amended. After a successful \<^verbatim>\<open>createRow\<close> the title and note inputs
  are empty, the category input keeps its value, and a refresh has been
  started: its request follows the creation request.
\<close>

theorem createRow_success:
  assumes "trim (title_input st) \<noteq> []" and "api rp = Inr d"
  shows "snd (createRow_start st) =
           Awaiting (POST_rows (trim (title_input st)) (trim (category_input st))
                       (trim (note_input st))) \<and>
         title_input (fst (createRow_resume (fst (createRow_start st)) rp)) = [] \<and>
         note_input (fst (createRow_resume (fst (createRow_start st)) rp)) = [] \<and>
         category_input (fst (createRow_resume (fst (createRow_start st)) rp)) =
           category_input st \<and>
         snd (createRow_resume (fst (createRow_start st)) rp) =
           Settled Returned (Some (GET_rows (groupMode st))) \<and>
         sent (fst (createRow_resume (fst (createRow_start st)) rp)) =
           sent st @ [POST_rows (trim (title_input st)) (trim (category_input st))
                        (trim (note_input st)),
                      GET_rows (groupMode st)]"
  using assms
  by (simp add: createRow_start_def createRow_resume_def Let_def refresh_start_def fetch_def
        sent_def)

theorem createRow_success_witness:
  "trim (title_input page_filled) \<noteq> [] \<and>
   api (Response reply_created) = Inr created_row \<and>
   title_input
     (fst (createRow_resume (fst (createRow_start page_filled)) (Response reply_created))) = [] \<and>
   note_input
     (fst (createRow_resume (fst (createRow_start page_filled)) (Response reply_created))) = [] \<and>
   sent (fst (createRow_resume (fst (createRow_start page_filled)) (Response reply_created))) =
     [POST_rows (ascii ''T'') (ascii ''C'') (ascii ''N''), GET_rows (ascii ''time'')]"
proof -
  have t: "trim (title_input page_filled) = ascii ''T''"
    by (simp add: page_filled_def page0_def trim_def is_js_space_def ascii_def)
  have c: "trim (category_input page_filled) = ascii ''C''"
    by (simp add: page_filled_def page0_def trim_def is_js_space_def ascii_def)
  have n: "trim (note_input page_filled) = ascii ''N''"
    by (simp add: page_filled_def page0_def trim_def is_js_space_def ascii_def)
  have ne: "trim (title_input page_filled) \<noteq> []"
    by (simp add: t ascii_def)
  have a: "api (Response reply_created) = Inr created_row"
    by (simp add: api_def reply_created_def ok_def)
  have s: "sent page_filled = []" and g: "groupMode page_filled = ascii ''time''"
    by (simp_all add: page_filled_def page0_def sent_def)
  from createRow_success [OF ne a] t c n s g ne a show ?thesis by simp
qed

lemma createRow_resume_failure:
  "api rp = Inl e \<Longrightarrow> createRow_resume st rp = (st, Settled (Threw e) None)"
  by (simp add: createRow_resume_def)

lemma deleteRow_resume_failure:
  "api rp = Inl e \<Longrightarrow> deleteRow_resume st rp = (st, Settled (Threw e) None)"
  by (simp add: deleteRow_resume_def)

lemma deleteFile_resume_failure:
  "api rp = Inl e \<Longrightarrow>
   deleteFile_resume st rp = (alert (MessageOf e) st, Settled Returned None)"
  by (simp add: deleteFile_resume_def)

lemma upload_resume_failure:
  "api rp = Inl e \<Longrightarrow>
   upload_resume (c, st) rp =
     ((upload_finally c, alert (MessageOf e) st), Settled Returned None)"
  by (simp add: upload_resume_def)

lemma api_not_found:
  "api (Response reply_not_found) = Inl (Error (Msg (ascii ''not found'')))"
  by (simp add: api_def reply_not_found_def ok_def ascii_def)

text \<open>
  C2. Every failing mutation is to be shown to the user in an alert. The
  delete-file and upload handlers catch the error and alert its message;
  \<^verbatim>\<open>deleteRow\<close> and \<^verbatim>\<open>createRow\<close> have no \<^verbatim>\<open>catch\<close>, and the caller of
  \<^verbatim>\<open>deleteRow\<close> drops the promise. With the row \<^verbatim>\<open>7\<close>, the confirmation
  accepted and a 404 response with body \<^verbatim>\<open>{"error":"not found"}\<close>,
  \<^verbatim>\<open>deleteRow\<close> ends in a rejection that nothing handles and the page is as it
  was, with no alert; the same response to the deletion of a file is alerted.
\<close>

theorem deleteRow_failure_not_alerted:
  "snd (deleteRow_start (ascii ''7'') True page0) = Awaiting (DELETE_row (ascii ''7'')) \<and>
   deleteRow_resume (fst (deleteRow_start (ascii ''7'') True page0)) (Response reply_not_found) =
     (fst (deleteRow_start (ascii ''7'') True page0),
      Settled (Threw (Error (Msg (ascii ''not found'')))) None) \<and>
   alerts (fst (deleteRow_resume (fst (deleteRow_start (ascii ''7'') True page0))
                  (Response reply_not_found))) = [] \<and>
   alerts (fst (deleteFile_resume (fst (deleteFile_start (ascii ''7'') True page0))
                  (Response reply_not_found))) = [MessageOf (Error (Msg (ascii ''not found'')))]"
  by (simp add: deleteRow_start_def deleteFile_start_def deleteRow_resume_failure [OF api_not_found]
        deleteFile_resume_failure [OF api_not_found] Let_def)
     (simp add: alerts_def page0_def)

text \<open>
  C6. In each of the four mutations, the segment that runs before the
  store's reply issues the mutation request and nothing else, and the
  request of the refresh is issued by the segment that runs on the reply:
  after the outcome of the mutation is known, and only when it succeeded.
\<close>

theorem refresh_follows_reply:
  "sent (fst (createRow_start st)) =
     sent st @ (if trim (title_input st) = [] then []
                else [POST_rows (trim (title_input st)) (trim (category_input st))
                        (trim (note_input st))]) \<and>
   sent (fst (createRow_resume st rp)) =
     sent st @ (case api rp of Inl e \<Rightarrow> [] | Inr d \<Rightarrow> [GET_rows (groupMode st)]) \<and>
   sent (fst (deleteRow_start i answer st)) = sent st @ (if answer then [DELETE_row i] else []) \<and>
   sent (fst (deleteRow_resume st rp)) =
     sent st @ (case api rp of Inl e \<Rightarrow> [] | Inr d \<Rightarrow> [GET_rows (groupMode st)]) \<and>
   sent (fst (deleteFile_start i answer st)) = sent st @ (if answer then [DELETE_file i] else []) \<and>
   sent (fst (deleteFile_resume st rp)) =
     sent st @ (case api rp of Inl e \<Rightarrow> [] | Inr d \<Rightarrow> [GET_rows (groupMode st)]) \<and>
   sent (snd (fst (upload_start rowId kind (c, st)))) =
     sent st @ (case input_files c of [] \<Rightarrow> [] | f # fs \<Rightarrow> [POST_upload rowId kind f]) \<and>
   sent (snd (fst (upload_resume (c, st) rp))) =
     sent st @ (case api rp of Inl e \<Rightarrow> [] | Inr d \<Rightarrow> [GET_rows (groupMode st)])"
  by (simp add: createRow_start_def createRow_resume_def deleteRow_start_def deleteRow_resume_def
        deleteFile_start_def deleteFile_resume_def upload_start_def upload_resume_def
        refresh_start_def Let_def split: sum.splits list.splits)

theorem refresh_follows_reply_witness:
  "sent (fst (deleteRow_start (ascii ''7'') True page0)) = [DELETE_row (ascii ''7'')] \<and>
   sent (fst (deleteRow_resume (fst (deleteRow_start (ascii ''7'') True page0))
                (Response reply_created))) =
     [DELETE_row (ascii ''7''), GET_rows (ascii ''time'')] \<and>
   sent (fst (deleteRow_resume (fst (deleteRow_start (ascii ''7'') True page0))
                (Response reply_not_found))) =
     [DELETE_row (ascii ''7'')]"
proof -
  have s: "sent page0 = []"
    by (simp add: page0_def sent_def)
  have a: "api (Response reply_created) = Inr created_row"
    by (simp add: api_def reply_created_def ok_def)
  have g: "groupMode (fst (deleteRow_start (ascii ''7'') True page0)) = ascii ''time''"
    by (simp add: deleteRow_start_def Let_def confirm_def fetch_def page0_def)
  from refresh_follows_reply [of page0 "Response reply_created" "ascii ''7''" True]
       refresh_follows_reply [of "fst (deleteRow_start (ascii ''7'') True page0)"
         "Response reply_created"]
       refresh_follows_reply [of "fst (deleteRow_start (ascii ''7'') True page0)"
         "Response reply_not_found"]
       s g a api_not_found
  show ?thesis by simp
qed

section \<open>Properties of the view\<close>

lemma foldl_appendChild:
  "foldl (\<lambda>w x. appendChild w (g x)) (Elem t c as ls ch) xs = Elem t c as ls (ch @ map g xs)"
  by (induction xs arbitrary: ch) simp_all

lemma makeInstantUploadButton_eq:
  "makeInstantUploadButton i k =
     Elem (ascii ''div'') (Some (S (ascii ''uploader''))) [] []
       [Elem (ascii ''button'') (Some (S (ascii ''btn-ghost mini''))) []
          [(ascii ''click'', F OpenPicker)] [Text text_upload],
        Elem (ascii ''input'') None
          [(ascii ''type'', S (ascii ''file'')), (ascii ''style'', S (ascii ''display:none''))]
          [(ascii ''change'', F (UploadChange i k))] []]"
  by (simp add: makeInstantUploadButton_def el_def Let_def startsWith_def ascii_def)

lemma fileRow_eq:
  "fileRow f =
     Elem (ascii ''div'') (Some (S (ascii ''fileRow''))) [] []
       [Elem (ascii ''a'') (Some (S (ascii ''fileLink'')))
          [(ascii ''href'', S (ascii ''/api/download/'' @ file_id f)),
           (ascii ''target'', S (ascii ''_blank''))] [] [Text (original_name f)],
        Elem (ascii ''button'') (Some (S (ascii ''btn-danger mini''))) []
          [(ascii ''click'', F (DeleteFileClick (file_id f)))] [Text text_delete]]"
  by (simp add: fileRow_def el_def Let_def startsWith_def ascii_def)

lemma renderFilesCell_eq:
  "renderFilesCell r k =
     Elem (ascii ''div'') (Some (S (ascii ''files''))) [] []
       (makeInstantUploadButton (row_id r) k # map fileRow (bucket (files_or_empty r) k))"
proof -
  have b: "(case files r of Some fs \<Rightarrow> bucket fs k | None \<Rightarrow> []) = bucket (files_or_empty r) k"
    by (simp add: files_or_empty_def bucket_def split: option.splits)
  have e: "el (ascii ''div'') [(ascii ''class'', S (ascii ''files''))] [] =
             Elem (ascii ''div'') (Some (S (ascii ''files''))) [] [] []"
    by (simp add: el_def)
  show ?thesis
    unfolding renderFilesCell_def Let_def b e
    by (simp add: foldl_appendChild)
qed

lemma count_makeInstantUploadButton: "count_class (ascii ''fileRow'') (makeInstantUploadButton i k) = 0"
  by (simp add: makeInstantUploadButton_eq) (simp add: ascii_def)

lemma count_fileRow: "count_class (ascii ''fileRow'') (fileRow f) = 1"
  by (simp add: fileRow_eq) (simp add: ascii_def)

lemma sum_list_const_one: "sum_list (map (\<lambda>x. Suc 0) xs) = length xs"
  by (induction xs) simp_all

lemma count_renderFilesCell:
  "count_class (ascii ''fileRow'') (renderFilesCell r k) = length (bucket (files_or_empty r) k)"
proof -
  have "ascii ''files'' \<noteq> ascii ''fileRow''"
    by (simp add: ascii_def)
  then show ?thesis
    by (simp add: renderFilesCell_eq count_makeInstantUploadButton count_fileRow comp_def
          sum_list_const_one)
qed

lemma td_eq: "td n = Elem (ascii ''td'') None [] [] [n]"
  by (simp add: td_def el_def)

lemma th_eq: "th s = Elem (ascii ''th'') None [] [] [Text s]"
  by (simp add: th_def el_def)

lemma count_td: "count_class c (td n) = count_class c n"
  by (simp add: td_eq)

lemma renderRow_eq:
  "renderRow r =
     Elem (ascii ''tr'') None [] []
       [td (Elem (ascii ''div'') (Some (S (ascii ''meta''))) [] [] [DateText (created_at r)]),
        Elem (ascii ''td'') None [] []
          [Elem (ascii ''div'') None [] [] [Text (title r)],
           Elem (ascii ''div'') (Some (S (ascii ''meta''))) [] []
             [Text (case row_note r of Some n \<Rightarrow> if n \<noteq> [] then n else ascii '' ''
                    | None \<Rightarrow> ascii '' '')]],
        td (Elem (ascii ''span'') (Some (S (ascii ''badge''))) [] [] [Text (category r)]),
        td (renderFilesCell r (ascii ''invoice'')),
        td (renderFilesCell r (ascii ''work'')),
        td (renderFilesCell r (ascii ''inspect'')),
        td (renderFilesCell r (ascii ''other'')),
        td (Elem (ascii ''button'') (Some (S (ascii ''btn-danger mini''))) []
              [(ascii ''click'', F (DeleteRowClick (row_id r)))] [Text text_delete_row])]"
  by (simp add: renderRow_def el_def Let_def startsWith_def ascii_def split: option.splits)

lemma count_renderRow:
  "count_class (ascii ''fileRow'') (renderRow r) =
     sum_list (map (\<lambda>k. length (bucket (files_or_empty r) k)) kinds4)"
proof -
  have ne: "ascii ''meta'' \<noteq> ascii ''fileRow''" "ascii ''badge'' \<noteq> ascii ''fileRow''"
    "ascii ''btn-danger mini'' \<noteq> ascii ''fileRow''"
    by (simp_all add: ascii_def)
  show ?thesis
    by (simp add: renderRow_eq count_td count_renderFilesCell kinds4_def ne)
qed

lemma renderTable_eq:
  "renderTable rs =
     Elem (ascii ''table'') (Some (S (ascii ''grid''))) [] []
       [Elem (ascii ''thead'') None [] []
          [Elem (ascii ''tr'') None [] []
             [th head_created, th head_title_note, th head_category, th label_invoice,
              th label_work, th label_inspect, th label_other, th head_manage]],
        Elem (ascii ''tbody'') None [] [] (map renderRow rs)]"
proof -
  have e: "\<And>t. el t [] [] = Elem t None [] [] []"
    by (simp add: el_def)
  have g: "el (ascii ''table'') [(ascii ''class'', S (ascii ''grid''))] [] =
             Elem (ascii ''table'') (Some (S (ascii ''grid''))) [] [] []"
    by (simp add: el_def)
  show ?thesis
    unfolding renderTable_def Let_def e g
    by (simp add: foldl_appendChild)
qed

lemma count_renderTable:
  "count_class (ascii ''fileRow'') (renderTable rs) =
     sum_list (map (\<lambda>r. sum_list (map (\<lambda>k. length (bucket (files_or_empty r) k)) kinds4)) rs)"
proof -
  have ne: "ascii ''grid'' \<noteq> ascii ''fileRow''"
    by (simp add: ascii_def)
  show ?thesis
    by (simp add: renderTable_eq th_eq ne comp_def count_renderRow)
qed

lemma foldl_add: "foldl (\<lambda>cnt k. cnt + g k) (a::nat) ks = a + sum_list (map g ks)"
  by (induction ks arbitrary: a) simp_all

lemma countAllFiles_sum:
  "countAllFiles rs =
     sum_list (map (\<lambda>r. sum_list (map (\<lambda>k. length (bucket (files_or_empty r) k))
                                      (map fst (files_or_empty r)))) rs)"
proof -
  have "foldl (\<lambda>cnt r. let fs = files_or_empty r
                         in foldl (\<lambda>cnt k. cnt + length (bucket fs k)) cnt (map fst fs)) a rs =
        a + sum_list (map (\<lambda>r. sum_list (map (\<lambda>k. length (bucket (files_or_empty r) k))
                                      (map fst (files_or_empty r)))) rs)" for a
    by (induction rs arbitrary: a) (simp_all add: Let_def foldl_add)
  then show ?thesis
    by (simp add: countAllFiles_def)
qed

lemma countAllFiles_append: "countAllFiles (xs @ ys) = countAllFiles xs + countAllFiles ys"
  by (simp add: countAllFiles_sum)

lemma bucket_absent: "k \<notin> set (map fst fs) \<Longrightarrow> bucket fs k = []"
  by (simp add: bucket_def map_of_eq_None_iff [THEN iffD2])

lemma sum_registered_keys:
  assumes "distinct ks" and "set ks \<subseteq> set kinds4" and "\<And>k. k \<notin> set ks \<Longrightarrow> g k = (0::nat)"
  shows "sum_list (map g ks) = sum_list (map g kinds4)"
proof -
  have d4: "distinct kinds4"
    by (simp add: kinds4_def ascii_def)
  have "sum_list (map g ks) = sum g (set ks)"
    using assms(1) by (simp add: sum_list_distinct_conv_sum_set)
  also have "\<dots> = sum g (set kinds4)"
    by (rule sum.mono_neutral_left) (use assms in auto)
  also have "\<dots> = sum_list (map g kinds4)"
    using d4 by (simp add: sum_list_distinct_conv_sum_set)
  finally show ?thesis .
qed

lemma kinds4_registry: "set kinds4 = set (map fst attachKinds)"
  by (simp add: kinds4_def attachKinds_def)

lemma registered_sum:
  assumes "registered r"
  shows "sum_list (map (\<lambda>k. length (bucket (files_or_empty r) k)) (map fst (files_or_empty r))) =
         sum_list (map (\<lambda>k. length (bucket (files_or_empty r) k)) kinds4)"
  using assms unfolding registered_def kinds4_registry [symmetric]
  by (intro sum_registered_keys) (auto simp: bucket_absent)

lemma count_renderTable_registered:
  assumes "list_all registered rs"
  shows "count_class (ascii ''fileRow'') (renderTable rs) = countAllFiles rs"
proof -
  have "map (\<lambda>r. sum_list (map (\<lambda>k. length (bucket (files_or_empty r) k)) kinds4)) rs =
        map (\<lambda>r. sum_list (map (\<lambda>k. length (bucket (files_or_empty r) k))
                                  (map fst (files_or_empty r)))) rs"
  proof (rule map_cong [OF refl])
    fix r assume "r \<in> set rs"
    with assms have "registered r"
      by (simp add: list_all_iff)
    then show "sum_list (map (\<lambda>k. length (bucket (files_or_empty r) k)) kinds4) =
               sum_list (map (\<lambda>k. length (bucket (files_or_empty r) k))
                           (map fst (files_or_empty r)))"
      by (rule registered_sum [symmetric])
  qed
  then show ?thesis
    unfolding count_renderTable countAllFiles_sum by (rule arg_cong)
qed

lemma render_group_eq:
  "render_group gs st k = st\<lparr>content := content st @ group_nodes gs k\<rparr>"
  by (simp add: render_group_def group_nodes_def content_append_def el_def Let_def
        split: option.splits)

lemma foldl_render_group:
  "foldl (render_group gs) st ks = st\<lparr>content := content st @ concat (map (group_nodes gs) ks)\<rparr>"
  by (induction ks arbitrary: st) (simp_all add: render_group_eq)

lemma foldl_append_concat: "foldl (\<lambda>all arr. all @ arr) a xss = a @ concat xss"
  by (induction xss arbitrary: a) simp_all

lemma render_groups_eq:
  "render_groups gs st =
     (st\<lparr>badge := dec (countAllFiles (concat (map snd gs))),
         content := content st @
           (if gs = []
            then [Elem (ascii ''div'') (Some (S (ascii ''meta''))) [] [] [Text text_no_data]]
            else concat (map (group_nodes gs) (map fst gs)))\<rparr>,
      Returned)"
  by (simp add: render_groups_def Let_def foldl_append_concat setTotalBadge_def
        content_append_def foldl_render_group el_def)

lemma refresh_render_time:
  assumes "mode d = Some (ascii ''time'')" and "rows d = Some rs"
  shows "refresh_render st (Snapshot d) =
           (st\<lparr>content := [renderTable rs], badge := dec (countAllFiles rs)\<rparr>, Returned)"
  using assms by (simp add: refresh_render_def setTotalBadge_def content_append_def)

lemma refresh_render_groups:
  assumes "mode d \<noteq> Some (ascii ''time'')"
  shows "refresh_render st (Snapshot d) =
           render_groups (case groups d of Some gs \<Rightarrow> gs | None \<Rightarrow> []) (st\<lparr>content := []\<rparr>)"
  using assms by (simp add: refresh_render_def)

lemma refresh_render_content:
  "refresh_render (st\<lparr>content := xs\<rparr>) data = refresh_render st data"
  by (simp add: refresh_render_def)

lemma refresh_render_idem:
  "refresh_render (fst (refresh_render st data)) data = refresh_render st data"
proof (cases data)
  case (Snapshot d)
  show ?thesis
  proof (cases "mode d = Some (ascii ''time'')")
    case True
    then show ?thesis
      using Snapshot
      by (cases "rows d") (simp_all add: refresh_render_def setTotalBadge_def content_append_def)
  next
    case False
    then show ?thesis
      using Snapshot by (simp add: refresh_render_groups render_groups_eq)
  qed
next
  case (Value v)
  then show ?thesis
    by (simp add: refresh_render_def Let_def render_groups_eq)
qed

lemma group_nodes_distinct:
  assumes "distinct (map fst gs)"
  shows "map (group_nodes gs \<circ> fst) gs =
         map (\<lambda>(k, rs). [Elem (ascii ''div'') (Some (S (ascii ''groupHead''))) [] []
                            [Text (folder_prefix @ k)], renderTable rs]) gs"
proof (rule map_cong [OF refl])
  fix x assume "x \<in> set gs"
  with assms have "map_of gs (fst x) = Some (snd x)"
    by (cases x) simp
  then show "(group_nodes gs \<circ> fst) x =
             (case x of (k, rs) \<Rightarrow> [Elem (ascii ''div'') (Some (S (ascii ''groupHead''))) [] []
                                      [Text (folder_prefix @ k)], renderTable rs])"
    by (cases x) (simp add: group_nodes_def)
qed

lemma count_groups:
  assumes "list_all registered (concat (map snd gs))"
  shows "sum_list (map (count_class (ascii ''fileRow''))
           (concat (map (\<lambda>(k, rs). [Elem (ascii ''div'') (Some (S (ascii ''groupHead''))) [] []
                                       [Text (folder_prefix @ k)], renderTable rs]) gs))) =
         countAllFiles (concat (map snd gs))"
  using assms
proof (induction gs)
  case Nil
  show ?case by (simp add: countAllFiles_def)
next
  case (Cons g gs)
  have ne: "ascii ''groupHead'' \<noteq> ascii ''fileRow''"
    by (simp add: ascii_def)
  from Cons show ?case
    by (cases g) (simp add: countAllFiles_append count_renderTable_registered ne)
qed

lemma bucket_entry:
  assumes "distinct (map fst fs)" and "(k, b) \<in> set fs"
  shows "bucket fs k = (case b of Some l \<Rightarrow> l | None \<Rightarrow> [])"
  using assms by (simp add: bucket_def map_of_eq_Some_iff [THEN iffD2])

lemma countAllFiles_bucket_total:
  assumes "list_all registered rs"
  shows "countAllFiles rs = bucket_total rs"
proof -
  have "map (\<lambda>r. sum_list (map (\<lambda>k. length (bucket (files_or_empty r) k))
                                  (map fst (files_or_empty r)))) rs =
        map (\<lambda>r. sum_list (map (\<lambda>kb. length (case snd kb of Some l \<Rightarrow> l | None \<Rightarrow> []))
                                  (files_or_empty r))) rs"
  proof (rule map_cong [OF refl])
    fix r assume "r \<in> set rs"
    with assms have d: "distinct (map fst (files_or_empty r))"
      by (simp add: list_all_iff registered_def)
    have "map (\<lambda>k. length (bucket (files_or_empty r) k)) (map fst (files_or_empty r)) =
          map (\<lambda>kb. length (case snd kb of Some l \<Rightarrow> l | None \<Rightarrow> [])) (files_or_empty r)"
      unfolding map_map
    proof (rule map_cong [OF refl])
      fix kb assume "kb \<in> set (files_or_empty r)"
      with d show "((\<lambda>k. length (bucket (files_or_empty r) k)) \<circ> fst) kb =
                   length (case snd kb of Some l \<Rightarrow> l | None \<Rightarrow> [])"
        by (cases kb) (simp add: bucket_entry)
    qed
    then show "sum_list (map (\<lambda>k. length (bucket (files_or_empty r) k))
                           (map fst (files_or_empty r))) =
               sum_list (map (\<lambda>kb. length (case snd kb of Some l \<Rightarrow> l | None \<Rightarrow> []))
                           (files_or_empty r))"
      by (rule arg_cong)
  qed
  then show ?thesis
    unfolding countAllFiles_sum bucket_total_def by (rule arg_cong)
qed

text \<open>
  C1. For a snapshot as the store sends it (rows in time mode, groups under
  distinct categories otherwise, every bucket keyed by a distinct kind of the
  registry), the refresh returns, the badge shows \<^verbatim>\<open>countAllFiles\<close> of the
  snapshot's rows, that count is the sum over all rows and all kinds of the
  bucket lengths, and it is the number of file entries in the rebuilt
  content, in time mode and in category mode.
\<close>

theorem badge_counts_rendered_files:
  assumes "well_formed d"
  shows "snd (refresh_render st (Snapshot d)) = Returned \<and>
         badge (fst (refresh_render st (Snapshot d))) = dec (countAllFiles (snapshot_rows d)) \<and>
         countAllFiles (snapshot_rows d) = bucket_total (snapshot_rows d) \<and>
         rendered_files (fst (refresh_render st (Snapshot d))) = countAllFiles (snapshot_rows d)"
proof (cases "mode d = Some (ascii ''time'')")
  case True
  with assms obtain rs where rs: "rows d = Some rs"
    by (auto simp: well_formed_def)
  from True rs have sr: "snapshot_rows d = rs"
    by (simp add: snapshot_rows_def)
  from assms sr have reg: "list_all registered rs"
    by (simp add: well_formed_def)
  show ?thesis
    by (simp add: refresh_render_time [OF True rs] sr rendered_files_def
          count_renderTable_registered [OF reg] countAllFiles_bucket_total [OF reg])
next
  case False
  define gs where "gs = (case groups d of Some gs \<Rightarrow> gs | None \<Rightarrow> [])"
  from False have sr: "snapshot_rows d = concat (map snd gs)"
    by (simp add: snapshot_rows_def gs_def)
  from assms False have dist: "distinct (map fst gs)"
    by (simp add: well_formed_def gs_def)
  from assms sr have reg: "list_all registered (concat (map snd gs))"
    by (simp add: well_formed_def)
  have ne: "ascii ''meta'' \<noteq> ascii ''fileRow''"
    by (simp add: ascii_def)
  have r: "refresh_render st (Snapshot d) = render_groups gs (st\<lparr>content := []\<rparr>)"
    using False by (simp add: refresh_render_groups gs_def)
  have cnt: "rendered_files (fst (render_groups gs (st\<lparr>content := []\<rparr>))) =
             countAllFiles (concat (map snd gs))"
  proof (cases "gs = []")
    case True
    then show ?thesis
      by (simp add: render_groups_eq rendered_files_def ne countAllFiles_def)
  next
    case False
    then show ?thesis
      by (simp add: render_groups_eq rendered_files_def group_nodes_distinct [OF dist]
            count_groups [OF reg])
  qed
  show ?thesis
    unfolding r sr using cnt
    by (simp add: render_groups_eq countAllFiles_bucket_total [OF reg])
qed

theorem badge_counts_rendered_files_witness:
  "well_formed snap_grouped \<and>
   badge (fst (refresh_render page0 (Snapshot snap_grouped))) = ascii ''2'' \<and>
   bucket_total (snapshot_rows snap_grouped) = 2 \<and>
   rendered_files (fst (refresh_render page0 (Snapshot snap_grouped))) = 2"
proof -
  have sr: "snapshot_rows snap_grouped = [row_old, row_new]"
    by (simp add: snapshot_rows_def snap_grouped_def ascii_def)
  have reg: "registered row_old" "registered row_new"
    by (simp_all add: registered_def files_or_empty_def row_old_def row_new_def attachKinds_def
          ascii_def)
  have wf: "well_formed snap_grouped"
    unfolding well_formed_def sr using reg
    by (simp add: snap_grouped_def ascii_def)
  have c: "countAllFiles [row_old, row_new] = 2"
    by (simp add: countAllFiles_def files_or_empty_def bucket_def row_old_def row_new_def
          ascii_def)
  have d: "dec 2 = ascii ''2''"
    by (simp add: dec.simps ascii_def)
  from badge_counts_rendered_files [OF wf, of page0] wf sr c d show ?thesis
    by simp
qed

text \<open>
  The restriction to kinds of the registry is the data model's: a bucket
  under any other key is counted by \<^verbatim>\<open>countAllFiles\<close>, which walks
  \<^verbatim>\<open>Object.keys(files)\<close>, and is shown in none of the four cells.
\<close>

lemma unregistered_kind_counted_not_rendered:
  "\<not> registered row_misc \<and> countAllFiles [row_misc] = 1 \<and>
   count_class (ascii ''fileRow'') (renderTable [row_misc]) = 0"
proof -
  have r: "count_class (ascii ''fileRow'') (renderTable [row_misc]) =
             sum_list (map (\<lambda>k. length (bucket (files_or_empty row_misc) k)) kinds4)"
    by (simp add: count_renderTable)
  have z: "sum_list (map (\<lambda>k. length (bucket (files_or_empty row_misc) k)) kinds4) = 0"
    by (simp add: kinds4_def bucket_def files_or_empty_def row_misc_def ascii_def)
  have n: "\<not> registered row_misc"
    by (simp add: registered_def files_or_empty_def row_misc_def attachKinds_def ascii_def)
  have c: "countAllFiles [row_misc] = 1"
    by (simp add: countAllFiles_def files_or_empty_def bucket_def row_misc_def)
  from r z n c show ?thesis by simp
qed

lemma date_texts_renderFilesCell: "date_texts (renderFilesCell r k) = []"
  by (simp add: renderFilesCell_eq makeInstantUploadButton_eq fileRow_eq comp_def)

lemma date_texts_renderRow: "date_texts (renderRow r) = [created_at r]"
  by (simp add: renderRow_eq td_eq date_texts_renderFilesCell)

lemma date_texts_renderTable: "date_texts (renderTable rs) = map created_at rs"
  by (simp add: renderTable_eq th_eq comp_def date_texts_renderRow)

lemma table_rows_renderTable: "table_rows (renderTable rs) = map renderRow rs"
  by (simp add: renderTable_eq table_rows_def)

text \<open>
  C3, as stated: in time mode the rendered rows are ordered by
  \<^verbatim>\<open>created_at\<close>, most recent first. The client does not sort: for a
  response that lists a row created at 1000 before a row created at 2000,
  the table shows them in that order.
\<close>

theorem time_mode_ascending_counterexample:
  "rendered_dates (fst (refresh_render page0 (Snapshot snap_ascending))) = [1000, 2000] \<and>
   \<not> descending (rendered_dates (fst (refresh_render page0 (Snapshot snap_ascending))))"
proof -
  have m: "mode snap_ascending = Some (ascii ''time'')" and r: "rows snap_ascending = Some [row_old, row_new]"
    by (simp_all add: snap_ascending_def)
  show ?thesis
    by (simp add: refresh_render_time [OF m r] rendered_dates_def date_texts_renderTable
          descending_def row_old_def row_new_def)
qed

text \<open>
  C3, amended. In time mode the content is a single table whose body rows
  are the fetched rows, each rendered once, in the order of the response;
  so the table is in descending order of \<^verbatim>\<open>created_at\<close> exactly when the
  response is.
\<close>

theorem time_mode_store_order:
  assumes "mode d = Some (ascii ''time'')" and "rows d = Some rs"
  shows "content (fst (refresh_render st (Snapshot d))) = [renderTable rs] \<and>
         table_rows (renderTable rs) = map renderRow rs \<and>
         rendered_dates (fst (refresh_render st (Snapshot d))) = map created_at rs \<and>
         (descending (rendered_dates (fst (refresh_render st (Snapshot d)))) \<longleftrightarrow>
            descending (map created_at rs))"
  by (simp add: refresh_render_time [OF assms] rendered_dates_def date_texts_renderTable
        table_rows_renderTable)

theorem time_mode_store_order_witness:
  "mode snap_ascending = Some (ascii ''time'') \<and> rows snap_ascending = Some [row_old, row_new] \<and>
   content (fst (refresh_render page0 (Snapshot snap_ascending))) = [renderTable [row_old, row_new]] \<and>
   rendered_dates (fst (refresh_render page0 (Snapshot snap_ascending))) = [1000, 2000]"
proof -
  have m: "mode snap_ascending = Some (ascii ''time'')" and r: "rows snap_ascending = Some [row_old, row_new]"
    by (simp_all add: snap_ascending_def)
  from time_mode_store_order [OF m r, of page0] m r show ?thesis
    by (simp add: row_old_def row_new_def)
qed

lemma refresh_resume_idem:
  "refresh_resume (fst (refresh_resume st rp)) rp = refresh_resume st rp"
  by (cases "api rp") (simp_all add: refresh_resume_def refresh_render_idem)

text \<open>
  C8. Refreshing again from the same response leaves the page as the first
  refresh left it, and what a successful refresh builds does not depend on
  what the content held before: the content is emptied and rebuilt.
\<close>

theorem refresh_idempotent:
  assumes "snd (refresh_resume st rp) \<noteq> Unmodelled"
  shows "refresh_resume (fst (refresh_resume st rp)) rp = refresh_resume st rp \<and>
         (\<forall>d xs. api rp = Inr d \<longrightarrow>
            refresh_resume (st\<lparr>content := xs\<rparr>) rp = refresh_resume st rp)"
proof -
  have "refresh_resume (st\<lparr>content := xs\<rparr>) rp = refresh_resume st rp" if "api rp = Inr d" for d xs
    using that by (simp add: refresh_resume_def refresh_render_content)
  then show ?thesis
    using refresh_resume_idem [of st rp] by blast
qed

theorem refresh_idempotent_witness:
  "snd (refresh_resume page0 (Response reply_rows)) \<noteq> Unmodelled \<and>
   content (fst (refresh_resume page0 (Response reply_rows))) = [renderTable [row_plain]] \<and>
   refresh_resume (fst (refresh_resume page0 (Response reply_rows))) (Response reply_rows) =
     refresh_resume page0 (Response reply_rows)"
proof -
  have a: "api (Response reply_rows) =
             Inr (Snapshot \<lparr>mode = Some (ascii ''time''), rows = Some [row_plain],
                              groups = None\<rparr>)"
    by (simp add: api_def reply_rows_def ok_def)
  have r: "refresh_resume page0 (Response reply_rows) =
             (page0\<lparr>content := [renderTable [row_plain]],
                     badge := dec (countAllFiles [row_plain])\<rparr>, Returned)"
    by (simp add: refresh_resume_def a refresh_render_time)
  have u: "snd (refresh_resume page0 (Response reply_rows)) \<noteq> Unmodelled"
    by (simp add: r)
  from refresh_idempotent [OF u] u r show ?thesis
    by simp
qed

section \<open>Properties of the upload control\<close>

lemma upload_start_empty:
  "input_files c = [] \<Longrightarrow> upload_start rowId kind (c, st) = ((c, st), Settled Returned None)"
  by (simp add: upload_start_def)

lemma upload_start_selected:
  "input_files c = f # fs \<Longrightarrow>
   upload_start rowId kind (c, st) =
     ((c\<lparr>btn_disabled := True, btn_textContent := text_uploading\<rparr>,
       fetch (POST_upload rowId kind f) st),
      Awaiting (POST_upload rowId kind f))"
  by (simp add: upload_start_def Let_def)

lemma upload_resume_cases:
  "upload_resume (c, st) rp =
     (case api rp of
        Inl e \<Rightarrow> ((upload_finally c, alert (MessageOf e) st), Settled Returned None)
      | Inr d \<Rightarrow> ((c, fetch (GET_rows (groupMode st)) st), Awaiting (GET_rows (groupMode st))))"
  by (simp add: upload_resume_def refresh_start_def Let_def split: sum.splits)

lemma log_refresh_render: "log (fst (refresh_render st data)) = log st"
proof (cases data)
  case (Snapshot d)
  then show ?thesis
    by (simp add: refresh_render_def Let_def render_groups_eq setTotalBadge_def
          content_append_def split: option.splits)
next
  case (Value v)
  then show ?thesis
    by (simp add: refresh_render_def Let_def render_groups_eq)
qed

lemma sent_refresh_resume: "sent (fst (refresh_resume st rp)) = sent st"
  by (cases "api rp") (simp_all add: refresh_resume_def sent_def log_refresh_render)

lemma upload_refreshed_settles:
  "\<exists>st' out. upload_refreshed (c, st) rp = ((upload_finally c, st'), Settled out None) \<and>
             sent st' = sent st"
proof (cases "refresh_resume st rp")
  case (Pair st1 out)
  then have s: "sent st1 = sent st"
    using sent_refresh_resume [of st rp] by simp
  show ?thesis
    using Pair s by (cases out) (auto simp: upload_refreshed_def)
qed

lemma busy_inv_step:
  assumes "busy_inv s" and "step rowId kind s s'"
  shows "busy_inv s'"
  using assms(2,1)
proof (cases rule: step.cases)
  case click
  with assms(1) show ?thesis
    by (auto simp: busy_inv_def in_flight_def)
next
  case cancel
  with assms(1) show ?thesis
    by (auto simp: busy_inv_def in_flight_def)
next
  case (choose fs c st p)
  with assms(1) have idle: "uploading s = 0" "refreshing s = 0"
    by (auto simp: busy_inv_def in_flight_def)
  show ?thesis
  proof (cases fs)
    case Nil
    with choose idle show ?thesis
      by (auto simp: upload_start_empty busy_inv_def in_flight_def)
  next
    case (Cons f fs')
    with choose idle show ?thesis
      by (auto simp: upload_start_selected busy_inv_def in_flight_def)
  qed
next
  case (upload_reply rp c st p)
  with assms(1) have b: "uploading s = 1" "refreshing s = 0" "btn_disabled (ctl s)"
    "btn_textContent (ctl s) = text_uploading" "\<not> picker_open s"
    by (auto simp: busy_inv_def in_flight_def)
  from upload_reply b show ?thesis
    by (cases "api rp") (auto simp: upload_resume_cases busy_inv_def in_flight_def)
next
  case (refresh_reply rp c st p)
  with assms(1) have b: "uploading s = 0" "refreshing s = 1"
    by (auto simp: busy_inv_def in_flight_def)
  from refresh_reply b show ?thesis
    by (auto simp: busy_inv_def in_flight_def)
qed

lemma busy_inv_reachable: "reachable rowId kind s \<Longrightarrow> busy_inv s"
proof (induction rule: reachable.induct)
  case (init st)
  show ?case by (simp add: busy_inv_def in_flight_def init_sys_def)
next
  case (after s s')
  then show ?case by (blast intro: busy_inv_step)
qed

lemma uploads_step_busy:
  assumes "busy_inv s" and "0 < in_flight s" and "step rowId kind s s'"
  shows "uploads (page s') = uploads (page s)"
  using assms(3)
proof (cases rule: step.cases)
  case click
  with assms(1,2) show ?thesis by (simp add: busy_inv_def)
next
  case cancel
  then show ?thesis by simp
next
  case (choose fs c st p)
  with assms(1,2) show ?thesis by (simp add: busy_inv_def)
next
  case (upload_reply rp c st p)
  then show ?thesis
    by (cases "api rp") (auto simp: upload_resume_cases uploads_def)
next
  case (refresh_reply rp c st p)
  with upload_refreshed_settles [of "ctl s" "page s" rp] show ?thesis
    by (auto simp: uploads_def)
qed

text \<open>
  C7. The \<^verbatim>\<open>change\<close> handler of an upload control returns at once, with
  nothing changed and nothing sent, when no file is selected; with a file it
  disables the button, sets the busy label and issues one upload request.
  In every state the control can reach, at most one invocation is in flight,
  and while one is, the button is disabled with the busy label, the picker is
  closed, and no step of the control issues another upload request. On the
  reply to the upload: when \<^verbatim>\<open>api\<close> throws, the handler alerts the message,
  enables the button, restores its label, empties the selection and settles;
  when \<^verbatim>\<open>api\<close> returns, it leaves the control busy and suspends on the
  refresh. On the reply to that refresh the handler always settles with the
  button enabled, the label restored and the selection empty, having sent
  nothing more, and a throw of the refresh is alerted first.
\<close>

theorem upload_control:
  "(input_files c = [] \<longrightarrow>
      upload_start rowId kind (c, st) = ((c, st), Settled Returned None)) \<and>
   (\<forall>f fs. input_files c = f # fs \<longrightarrow>
      upload_start rowId kind (c, st) =
        ((c\<lparr>btn_disabled := True, btn_textContent := text_uploading\<rparr>,
          fetch (POST_upload rowId kind f) st),
         Awaiting (POST_upload rowId kind f))) \<and>
   (reachable rowId kind s \<longrightarrow>
      in_flight s \<le> 1 \<and>
      (0 < in_flight s \<longrightarrow>
         btn_disabled (ctl s) \<and> btn_textContent (ctl s) = text_uploading \<and> \<not> picker_open s \<and>
         (\<forall>s'. step rowId kind s s' \<longrightarrow> uploads (page s') = uploads (page s)))) \<and>
   (\<forall>e. api rp = Inl e \<longrightarrow>
      upload_resume (c, st) rp =
        ((c\<lparr>btn_disabled := False, btn_textContent := text_upload, input_files := []\<rparr>,
          alert (MessageOf e) st),
         Settled Returned None)) \<and>
   (\<forall>d. api rp = Inr d \<longrightarrow>
      upload_resume (c, st) rp =
        ((c, fetch (GET_rows (groupMode st)) st), Awaiting (GET_rows (groupMode st)))) \<and>
   (\<exists>st' out.
      upload_refreshed (c, st) rp =
        ((c\<lparr>btn_disabled := False, btn_textContent := text_upload, input_files := []\<rparr>, st'),
         Settled out None) \<and>
      sent st' = sent st) \<and>
   (\<forall>st' e. refresh_resume st rp = (st', Threw e) \<longrightarrow>
      upload_refreshed (c, st) rp =
        ((c\<lparr>btn_disabled := False, btn_textContent := text_upload, input_files := []\<rparr>,
          alert (MessageOf e) st'),
         Settled Returned None))"
proof (intro conjI)
  show "input_files c = [] \<longrightarrow>
          upload_start rowId kind (c, st) = ((c, st), Settled Returned None)"
    by (simp add: upload_start_empty)
next
  show "\<forall>f fs. input_files c = f # fs \<longrightarrow>
          upload_start rowId kind (c, st) =
            ((c\<lparr>btn_disabled := True, btn_textContent := text_uploading\<rparr>,
              fetch (POST_upload rowId kind f) st),
             Awaiting (POST_upload rowId kind f))"
    by (simp add: upload_start_selected)
next
  show "reachable rowId kind s \<longrightarrow>
          in_flight s \<le> 1 \<and>
          (0 < in_flight s \<longrightarrow>
             btn_disabled (ctl s) \<and> btn_textContent (ctl s) = text_uploading \<and>
             \<not> picker_open s \<and>
             (\<forall>s'. step rowId kind s s' \<longrightarrow> uploads (page s') = uploads (page s)))"
  proof
    assume "reachable rowId kind s"
    then have b: "busy_inv s"
      by (rule busy_inv_reachable)
    then show "in_flight s \<le> 1 \<and>
          (0 < in_flight s \<longrightarrow>
             btn_disabled (ctl s) \<and> btn_textContent (ctl s) = text_uploading \<and>
             \<not> picker_open s \<and>
             (\<forall>s'. step rowId kind s s' \<longrightarrow> uploads (page s') = uploads (page s)))"
      using uploads_step_busy [OF b] by (auto simp: busy_inv_def)
  qed
next
  show "\<forall>e. api rp = Inl e \<longrightarrow>
          upload_resume (c, st) rp =
            ((c\<lparr>btn_disabled := False, btn_textContent := text_upload, input_files := []\<rparr>,
              alert (MessageOf e) st),
             Settled Returned None)"
    by (simp add: upload_resume_cases upload_finally_def)
next
  show "\<forall>d. api rp = Inr d \<longrightarrow>
          upload_resume (c, st) rp =
            ((c, fetch (GET_rows (groupMode st)) st), Awaiting (GET_rows (groupMode st)))"
    by (simp add: upload_resume_cases)
next
  show "\<exists>st' out.
          upload_refreshed (c, st) rp =
            ((c\<lparr>btn_disabled := False, btn_textContent := text_upload, input_files := []\<rparr>, st'),
             Settled out None) \<and>
          sent st' = sent st"
    using upload_refreshed_settles [of c st rp] by (simp add: upload_finally_def)
next
  show "\<forall>st' e. refresh_resume st rp = (st', Threw e) \<longrightarrow>
          upload_refreshed (c, st) rp =
            ((c\<lparr>btn_disabled := False, btn_textContent := text_upload, input_files := []\<rparr>,
              alert (MessageOf e) st'),
             Settled Returned None)"
    by (simp add: upload_refreshed_def upload_finally_def)
qed

theorem upload_control_witness:
  "reachable (ascii ''7'') (ascii ''invoice'') sys_busy \<and>
   in_flight sys_busy \<le> 1 \<and> 0 < in_flight sys_busy \<and>
   btn_disabled (ctl sys_busy) \<and> btn_textContent (ctl sys_busy) = text_uploading \<and>
   \<not> picker_open sys_busy \<and>
   api (Response reply_not_found) = Inl (Error (Msg (ascii ''not found''))) \<and>
   upload_resume (ctl sys_busy, page sys_busy) (Response reply_not_found) =
     (((ctl sys_busy)\<lparr>btn_disabled := False, btn_textContent := text_upload,
                       input_files := []\<rparr>,
       alert (MessageOf (Error (Msg (ascii ''not found'')))) (page sys_busy)),
      Settled Returned None)"
proof -
  let ?f = "(ascii ''a.pdf'', [37, 80, 68, 70])"
  let ?rq = "POST_upload (ascii ''7'') (ascii ''invoice'') ?f"
  let ?s1 = "(init_sys page0)\<lparr>picker_open := True\<rparr>"
  let ?c = "\<lparr>btn_disabled = True, btn_textContent = text_uploading, input_files = [?f]\<rparr>"
  have r0: "reachable (ascii ''7'') (ascii ''invoice'') (init_sys page0)"
    by (rule reachable.init)
  have s1: "step (ascii ''7'') (ascii ''invoice'') (init_sys page0) ?s1"
    by (rule step.click) (simp add: init_sys_def fresh_control_def)
  have us: "upload_start (ascii ''7'') (ascii ''invoice'')
              ((ctl ?s1)\<lparr>input_files := [?f]\<rparr>, page ?s1) =
            ((?c, fetch ?rq page0), Awaiting ?rq)"
    by (simp add: upload_start_def Let_def init_sys_def fresh_control_def)
  have o: "picker_open ?s1"
    by simp
  have e: "?s1\<lparr>ctl := ?c, page := fetch ?rq page0, picker_open := False,
               uploading := (case Awaiting ?rq of Awaiting x \<Rightarrow> Suc (uploading ?s1)
                             | Settled x y \<Rightarrow> uploading ?s1)\<rparr> = sys_busy"
    by (simp add: sys_busy_def init_sys_def)
  have s2: "step (ascii ''7'') (ascii ''invoice'') ?s1 sys_busy"
    using step.choose [OF o us] unfolding e .
  have r: "reachable (ascii ''7'') (ascii ''invoice'') sys_busy"
    by (rule reachable.after [OF reachable.after [OF r0 s1] s2])
  have f: "0 < in_flight sys_busy"
    by (simp add: in_flight_def sys_busy_def)
  note u = upload_control [where rowId = "ascii ''7''" and kind = "ascii ''invoice''"
      and s = sys_busy and c = "ctl sys_busy" and st = "page sys_busy"
      and rp = "Response reply_not_found"]
  from u r f
  have b: "in_flight sys_busy \<le> 1 \<and> btn_disabled (ctl sys_busy) \<and>
        btn_textContent (ctl sys_busy) = text_uploading \<and> \<not> picker_open sys_busy"
    by blast
  from u api_not_found
  have d: "upload_resume (ctl sys_busy, page sys_busy) (Response reply_not_found) =
     (((ctl sys_busy)\<lparr>btn_disabled := False, btn_textContent := text_upload,
                       input_files := []\<rparr>,
       alert (MessageOf (Error (Msg (ascii ''not found'')))) (page sys_busy)),
      Settled Returned None)"
    by blast
  from r f b d api_not_found show ?thesis by blast
qed

end
